theory Spec2Isabelle
  imports Main
begin

section \<open>JSON values and the Python operations the server applies to them\<close>

text \<open>
  The values \<^verbatim>\<open>json.load\<close> and \<^verbatim>\<open>request.get_json()\<close> produce. An object is
  the list of the items of the Python dict (keys distinct, in insertion order). Numbers
  with a fraction are left out: the server never computes with a payload.
\<close>

datatype json =
    JNull
  | JBool bool
  | JInt int
  | JStr string
  | JList "json list"
  | JObj "(string \<times> json) list"

text \<open>The exception classes that can arise in \<^verbatim>\<open>api_server.py\<close>.\<close>

datatype exn = FileNotFoundError | OSError | ValueError | TypeError | AttributeError

text \<open>
  \<^verbatim>\<open>str(e)\<close> inside the f-strings of the error bodies. The interpreter's message text is
  outside the model; every exception is rendered by the name of its class.
\<close>

fun str_exn :: "exn \<Rightarrow> string" where
  "str_exn FileNotFoundError = ''FileNotFoundError''"
| "str_exn OSError = ''OSError''"
| "str_exn ValueError = ''ValueError''"
| "str_exn TypeError = ''TypeError''"
| "str_exn AttributeError = ''AttributeError''"

text \<open>Python truthiness, as tested by \<^verbatim>\<open>if custom_params:\<close> and \<^verbatim>\<open>x or {}\<close>.\<close>

fun truthy :: "json \<Rightarrow> bool" where
  "truthy JNull = False"
| "truthy (JBool b) = b"
| "truthy (JInt n) = (n \<noteq> 0)"
| "truthy (JStr s) = (s \<noteq> [])"
| "truthy (JList xs) = (xs \<noteq> [])"
| "truthy (JObj kvs) = (kvs \<noteq> [])"

text \<open>\<^verbatim>\<open>p in s\<close> on two Python strings: \<open>p\<close> occurs in \<open>s\<close> as a contiguous piece.\<close>

fun substring :: "string \<Rightarrow> string \<Rightarrow> bool" where
  "substring p [] = (p = [])"
| "substring p (c # cs) = (take (length p) (c # cs) = p \<or> substring p cs)"

text \<open>
  \<^verbatim>\<open>key in value\<close> for a string key: a key of a dict, an element of a list, a piece of
  a string; \<^verbatim>\<open>None\<close>, booleans and numbers are not iterable and raise TypeError.
\<close>

fun py_in :: "string \<Rightarrow> json \<Rightarrow> exn + bool" where
  "py_in k (JObj kvs) = Inr (k \<in> fst ` set kvs)"
| "py_in k (JList xs) = Inr (JStr k \<in> set xs)"
| "py_in k (JStr s) = Inr (substring k s)"
| "py_in k JNull = Inl TypeError"
| "py_in k (JBool b) = Inl TypeError"
| "py_in k (JInt n) = Inl TypeError"

text \<open>\<^verbatim>\<open>d.get(k)\<close>: only a dict has the method; a missing key gives \<^verbatim>\<open>None\<close>.\<close>

definition dict_get :: "json \<Rightarrow> string \<Rightarrow> exn + json" where
  "dict_get d k =
     (case d of
        JObj kvs \<Rightarrow> Inr (case map_of kvs k of None \<Rightarrow> JNull | Some v \<Rightarrow> v)
      | _ \<Rightarrow> Inl AttributeError)"

section \<open>The shared directory\<close>

text \<open>
  The paths the server uses, all inside \<^verbatim>\<open>./gradio_results\<close>:
  \<^verbatim>\<open>current_index.txt\<close>, \<^verbatim>\<open>trigger.txt\<close>, \<^verbatim>\<open>trigger.txt.tmp\<close>,
  \<^verbatim>\<open>result_custom.json\<close>, \<^verbatim>\<open>result_<i>.json\<close> and \<^verbatim>\<open>shutdown_worker.signal\<close>.
\<close>

datatype path =
    STATE_FILE
  | TRIGGER_FILE
  | TRIGGER_TMP
  | RESULT_CUSTOM
  | RESULT_INDEX int
  | SHUTDOWN_FILE

text \<open>
  The text of a file, seen through the two readers of this program: \<open>as_int\<close> is the value
  of \<^verbatim>\<open>int(f.read().strip())\<close> and \<open>as_json\<close> the value of \<^verbatim>\<open>json.load(f)\<close>;
  \<open>None\<close> where the reader raises (ValueError, of which JSONDecodeError and
  UnicodeDecodeError are subclasses).
\<close>

record content =
  as_int :: "int option"
  as_json :: "json option"

text \<open>\<^verbatim>\<open>str(n)\<close> of an integer, and the text \<^verbatim>\<open>json.dump\<close> writes for a value.\<close>

definition str_int :: "int \<Rightarrow> content" where
  "str_int n = \<lparr>as_int = Some n, as_json = Some (JInt n)\<rparr>"

definition json_dump :: "json \<Rightarrow> content" where
  "json_dump j = \<lparr>as_int = (case j of JInt n \<Rightarrow> Some n | _ \<Rightarrow> None), as_json = Some j\<rparr>"

text \<open>
  The directory: the files present, and the operations the operating system refuses
  (permissions, a directory in place of a file, a full disk), each refusal an OSError.
\<close>

datatype access = ReadAcc | WriteAcc | ReplaceAcc | RemoveAcc

record store =
  files :: "path \<Rightarrow> content option"
  denied :: "access \<Rightarrow> path \<Rightarrow> bool"

text \<open>What the handler does to the outside, in order; a log line by level and message.\<close>

datatype level = ERROR | WARNING

datatype event =
    Exists path
  | Open_read path
  | Open_write path
  | Replace path path
  | Remove path
  | Sleep nat
  | Logged level string

text \<open>
  The world of one request: the directory, the clock in seconds and the trace of the
  handler's own operations. The clock advances only in \<^verbatim>\<open>time.sleep\<close>, by the time
  asked for; every other operation takes no time.
\<close>

record world =
  disk :: store
  now :: nat
  trace :: "event list"

definition emit :: "event \<Rightarrow> world \<Rightarrow> world" where
  "emit e w = w\<lparr>trace := trace w @ [e]\<rparr>"

definition set_file :: "path \<Rightarrow> content option \<Rightarrow> world \<Rightarrow> world" where
  "set_file p v w = w\<lparr>disk := (disk w)\<lparr>files := (files (disk w))(p := v)\<rparr>\<rparr>"

text \<open>\<^verbatim>\<open>os.path.exists(p)\<close>\<close>

definition path_exists :: "path \<Rightarrow> world \<Rightarrow> bool \<times> world" where
  "path_exists p w = (files (disk w) p \<noteq> None, emit (Exists p) w)"

text \<open>\<^verbatim>\<open>with open(p, 'r') as f: f.read()\<close>\<close>

definition read_text :: "path \<Rightarrow> world \<Rightarrow> (exn + content) \<times> world" where
  "read_text p w =
     (case files (disk w) p of
        None \<Rightarrow> Inl FileNotFoundError
      | Some t \<Rightarrow> if denied (disk w) ReadAcc p then Inl OSError else Inr t,
      emit (Open_read p) w)"

text \<open>\<^verbatim>\<open>with open(p, 'w') as f: f.write(t)\<close>, all of the text or none of it.\<close>

definition write_text :: "path \<Rightarrow> content \<Rightarrow> world \<Rightarrow> (exn + unit) \<times> world" where
  "write_text p t w =
     (if denied (disk w) WriteAcc p then (Inl OSError, emit (Open_write p) w)
      else (Inr (), emit (Open_write p) (set_file p (Some t) w)))"

text \<open>\<^verbatim>\<open>os.replace(src, dst)\<close>\<close>

definition os_replace :: "path \<Rightarrow> path \<Rightarrow> world \<Rightarrow> (exn + unit) \<times> world" where
  "os_replace src dst w =
     (case files (disk w) src of
        None \<Rightarrow> (Inl FileNotFoundError, emit (Replace src dst) w)
      | Some t \<Rightarrow>
          if denied (disk w) ReplaceAcc dst then (Inl OSError, emit (Replace src dst) w)
          else (Inr (), emit (Replace src dst) (set_file src None (set_file dst (Some t) w))))"

text \<open>\<^verbatim>\<open>os.remove(p)\<close>\<close>

definition os_remove :: "path \<Rightarrow> world \<Rightarrow> (exn + unit) \<times> world" where
  "os_remove p w =
     (case files (disk w) p of
        None \<Rightarrow> (Inl FileNotFoundError, emit (Remove p) w)
      | Some t \<Rightarrow>
          if denied (disk w) RemoveAcc p then (Inl OSError, emit (Remove p) w)
          else (Inr (), emit (Remove p) (set_file p None w)))"

text \<open>
  \<^verbatim>\<open>time.sleep(d)\<close>. The worker is another process: \<open>env t\<close> is what it (and anything
  else outside the handler) does to the directory during the sleep that starts at time
  \<open>t\<close>. Between two sleeps the handler runs undisturbed.
\<close>

definition sleep :: "(nat \<Rightarrow> store \<Rightarrow> store) \<Rightarrow> nat \<Rightarrow> world \<Rightarrow> world" where
  "sleep env d w = emit (Sleep d) (w\<lparr>disk := env (now w) (disk w), now := now w + d\<rparr>)"

section \<open>Configuration\<close>

definition MAX_WAIT_TIME :: nat where
  "MAX_WAIT_TIME = 30000"

definition CHECK_INTERVAL :: nat where
  "CHECK_INTERVAL = 1"

definition get_total_samples :: int where
  "get_total_samples = 1000"

section \<open>The cursor\<close>

text \<open>
  \<^verbatim>\<open>get_current_index\<close>: the \<^verbatim>\<open>except (FileNotFoundError, ValueError)\<close> clause
  returns 0; any other exception leaves the function.
\<close>

definition get_current_index :: "world \<Rightarrow> (exn + int) \<times> world" where
  "get_current_index w =
     (case read_text STATE_FILE w of
        (Inl e, w1) \<Rightarrow>
          if e = FileNotFoundError \<or> e = ValueError then (Inr 0, w1) else (Inl e, w1)
      | (Inr t, w1) \<Rightarrow>
          (case as_int t of
             None \<Rightarrow> (Inr 0, w1)
           | Some n \<Rightarrow> (Inr n, w1)))"

text \<open>\<^verbatim>\<open>update_current_index\<close>: a failed write is logged and raised again.\<close>

definition update_current_index :: "int \<Rightarrow> world \<Rightarrow> (exn + unit) \<times> world" where
  "update_current_index new_index w =
     (case write_text STATE_FILE (str_int new_index) w of
        (Inl e, w1) \<Rightarrow> (Inl e, emit (Logged ERROR ''Failed to update state file'') w1)
      | (Inr u, w1) \<Rightarrow> (Inr (), w1))"

section \<open>The request handler\<close>

text \<open>How a request ends: an exception that leaves the handler, or a body with a status.\<close>

datatype outcome = Raise exn | Respond json nat

definition request_data :: "json option \<Rightarrow> json" where
  "request_data body =
     (case body of None \<Rightarrow> JObj [] | Some j \<Rightarrow> if truthy j then j else JObj [])"

definition required_fields :: "string list" where
  "required_fields = []"

text \<open>\<^verbatim>\<open>[field for field in required_fields if field not in custom_params]\<close>\<close>

fun missing_fields :: "string list \<Rightarrow> json \<Rightarrow> exn + string list" where
  "missing_fields [] cp = Inr []"
| "missing_fields (f # fs) cp =
     (case py_in f cp of
        Inl e \<Rightarrow> Inl e
      | Inr b \<Rightarrow>
          (case missing_fields fs cp of
             Inl e \<Rightarrow> Inl e
           | Inr ms \<Rightarrow> Inr (if b then ms else f # ms)))"

text \<open>The \<^verbatim>\<open>repr\<close> of a list of strings, as the f-string of the 400 body prints it.\<close>

fun repr_items :: "string list \<Rightarrow> string" where
  "repr_items [] = []"
| "repr_items [f] = [CHR 39] @ f @ [CHR 39]"
| "repr_items (f # fs) = [CHR 39] @ f @ [CHR 39] @ '', '' @ repr_items fs"

definition repr_list :: "string list \<Rightarrow> string" where
  "repr_list fs = ''['' @ repr_items fs @ '']''"

text \<open>
  Lines 64 to 98: the mode, the index and the trigger data; or the end of the request.
\<close>

definition choose_index :: "json option \<Rightarrow> world \<Rightarrow> (outcome + int \<times> json) \<times> world" where
  "choose_index body w =
     (case dict_get (request_data body) ''custom_params'' of
        Inl e \<Rightarrow> (Inl (Raise e), w)
      | Inr custom_params \<Rightarrow>
          if truthy custom_params then
            (case missing_fields required_fields custom_params of
               Inl e \<Rightarrow> (Inl (Raise e), w)
             | Inr missing \<Rightarrow>
                 if missing \<noteq> [] then
                   (Inl (Respond (JObj [(''error'',
                      JStr (''Missing required fields: '' @ repr_list missing))]) 400), w)
                 else
                   (Inr (- 1, JObj [(''index'', JInt (- 1)),
                      (''custom_params'', custom_params)]), w))
          else
            (case get_current_index w of
               (Inl e, w1) \<Rightarrow> (Inl (Raise e), w1)
             | (Inr current_index, w1) \<Rightarrow>
                 if current_index \<ge> get_total_samples then
                   (Inl (Respond (JObj [(''error'', JStr ''All samples generated''),
                      (''index'', JInt current_index)]) 400), w1)
                 else (Inr (current_index, JObj [(''index'', JInt current_index)]), w1)))"

text \<open>Lines 103 to 105: the temporary file is written, then moved onto the trigger.\<close>

definition publish :: "json \<Rightarrow> world \<Rightarrow> (exn + unit) \<times> world" where
  "publish trigger_data w =
     (case write_text TRIGGER_TMP (json_dump trigger_data) w of
        (Inl e, w1) \<Rightarrow> (Inl e, w1)
      | (Inr u, w1) \<Rightarrow> os_replace TRIGGER_TMP TRIGGER_FILE w1)"

text \<open>
  Lines 100 to 112: the \<^verbatim>\<open>try\<close> holds the publication and \<^verbatim>\<open>time.sleep(100)\<close>;
  its \<^verbatim>\<open>except Exception\<close> logs twice and answers 500.
\<close>

definition write_trigger ::
  "(nat \<Rightarrow> store \<Rightarrow> store) \<Rightarrow> json \<Rightarrow> world \<Rightarrow> (outcome + unit) \<times> world" where
  "write_trigger env trigger_data w =
     (case publish trigger_data w of
        (Inl e, w1) \<Rightarrow>
          (Inl (Respond (JObj [(''error'',
             JStr (''Failed to trigger generation: '' @ str_exn e))]) 500),
           emit (Logged ERROR ''traceback'')
             (emit (Logged ERROR ''Failed to write trigger file'') w1))
      | (Inr u, w1) \<Rightarrow> (Inr (), sleep env 100 w1))"

text \<open>Lines 115 to 119.\<close>

definition result_file_path :: "int \<Rightarrow> path" where
  "result_file_path current_index =
     (if current_index = - 1 then RESULT_CUSTOM else RESULT_INDEX current_index)"

text \<open>
  Lines 125 to 141, the body of the \<^verbatim>\<open>try\<close>: read and parse, remove, advance the
  cursor, then test the payload for an error field.
\<close>

definition try_result :: "int \<Rightarrow> path \<Rightarrow> world \<Rightarrow> (exn + outcome) \<times> world" where
  "try_result current_index result_path w =
     (case read_text result_path w of
        (Inl e, w1) \<Rightarrow> (Inl e, w1)
      | (Inr t, w1) \<Rightarrow>
          (case as_json t of
             None \<Rightarrow> (Inl ValueError, w1)
           | Some result \<Rightarrow>
               (case os_remove result_path w1 of
                  (Inl e, w2) \<Rightarrow> (Inl e, w2)
                | (Inr u, w2) \<Rightarrow>
                    (case (if current_index \<noteq> - 1
                           then update_current_index (current_index + 1) w2
                           else (Inr (), w2)) of
                       (Inl e, w3) \<Rightarrow> (Inl e, w3)
                     | (Inr u, w3) \<Rightarrow>
                         (case py_in ''error'' result of
                            Inl e \<Rightarrow> (Inl e, w3)
                          | Inr has_error \<Rightarrow>
                              (Inr (Respond result (if has_error then 500 else 200)), w3))))))"

text \<open>Lines 147 to 151: the clean-up of the \<^verbatim>\<open>except\<close> branch.\<close>

definition remove_corrupted :: "path \<Rightarrow> world \<Rightarrow> world" where
  "remove_corrupted result_path w =
     (case path_exists result_path w of
        (False, w1) \<Rightarrow> w1
      | (True, w1) \<Rightarrow>
          (case os_remove result_path w1 of
             (Inl e, w2) \<Rightarrow> emit (Logged WARNING ''Failed to remove corrupted result file'') w2
           | (Inr u, w2) \<Rightarrow> w2))"

text \<open>Lines 124 to 152: what the handler does once the result file exists.\<close>

definition process_result :: "int \<Rightarrow> path \<Rightarrow> world \<Rightarrow> outcome \<times> world" where
  "process_result current_index result_path w =
     (case try_result current_index result_path w of
        (Inr out, w1) \<Rightarrow> (out, w1)
      | (Inl e, w1) \<Rightarrow>
          (Respond (JObj [(''error'', JStr (''Error processing result: '' @ str_exn e))]) 500,
           remove_corrupted result_path
             (emit (Logged ERROR ''traceback'')
               (emit (Logged ERROR ''Error reading/parsing result file'') w1))))"

text \<open>Lines 156 to 166: the trigger is removed if it is still there.\<close>

definition on_timeout :: "world \<Rightarrow> outcome \<times> world" where
  "on_timeout w =
     (Respond (JObj [(''error'', JStr ''Timeout waiting for video generation'')]) 500,
      (case path_exists TRIGGER_FILE w of
         (False, w1) \<Rightarrow> w1
       | (True, w1) \<Rightarrow>
           (case os_remove TRIGGER_FILE w1 of
              (Inl e, w2) \<Rightarrow> emit (Logged WARNING ''Could not remove stale trigger file'') w2
            | (Inr u, w2) \<Rightarrow> w2)))"

text \<open>Lines 121 to 166: the polling loop, \<open>start_time\<close> being the clock at its entry.\<close>

function wait_for_result ::
  "(nat \<Rightarrow> store \<Rightarrow> store) \<Rightarrow> int \<Rightarrow> path \<Rightarrow> nat \<Rightarrow> world \<Rightarrow> outcome \<times> world" where
  "wait_for_result env current_index result_path start_time w =
     (if now w - start_time < MAX_WAIT_TIME then
        (case path_exists result_path w of
           (True, w1) \<Rightarrow> process_result current_index result_path w1
         | (False, w1) \<Rightarrow>
             wait_for_result env current_index result_path start_time
               (sleep env CHECK_INTERVAL w1))
      else on_timeout w)"
  by pat_completeness auto
termination
  by (relation "measure (\<lambda>(env, i, p, s, w). MAX_WAIT_TIME + s - now w)")
     (auto simp: path_exists_def sleep_def emit_def CHECK_INTERVAL_def)

definition generate_next ::
  "(nat \<Rightarrow> store \<Rightarrow> store) \<Rightarrow> json option \<Rightarrow> world \<Rightarrow> outcome \<times> world" where
  "generate_next env body w =
     (case choose_index body w of
        (Inl out, w1) \<Rightarrow> (out, w1)
      | (Inr (current_index, trigger_data), w1) \<Rightarrow>
          (case write_trigger env trigger_data w1 of
             (Inl out, w2) \<Rightarrow> (out, w2)
           | (Inr u, w2) \<Rightarrow>
               wait_for_result env current_index (result_file_path current_index)
                 (now w2) w2))"

declare wait_for_result.simps [simp del]

section \<open>Vocabulary of the properties\<close>

text \<open>
  One unsuccessful poll of line 122 to 154: the existence test finds nothing and the
  handler sleeps \<open>CHECK_INTERVAL\<close>. \<open>(tick env p ^^ j) w\<close> is the world at the \<open>j\<close>-th
  poll of a loop entered in \<open>w\<close>, all polls before it having found nothing.
\<close>

definition tick :: "(nat \<Rightarrow> store \<Rightarrow> store) \<Rightarrow> path \<Rightarrow> world \<Rightarrow> world" where
  "tick env result_path w = sleep env CHECK_INTERVAL (emit (Exists result_path) w)"

text \<open>An event of the trace that concerns a path, and one that can change it.\<close>

fun touches :: "path \<Rightarrow> event \<Rightarrow> bool" where
  "touches p (Exists q) = (p = q)"
| "touches p (Open_read q) = (p = q)"
| "touches p (Open_write q) = (p = q)"
| "touches p (Replace src dst) = (p = src \<or> p = dst)"
| "touches p (Remove q) = (p = q)"
| "touches p (Sleep d) = False"
| "touches p (Logged l m) = False"

fun mutates :: "path \<Rightarrow> event \<Rightarrow> bool" where
  "mutates p (Open_write q) = (p = q)"
| "mutates p (Replace src dst) = (p = src \<or> p = dst)"
| "mutates p (Remove q) = (p = q)"
| "mutates p (Exists q) = False"
| "mutates p (Open_read q) = False"
| "mutates p (Sleep d) = False"
| "mutates p (Logged l m) = False"

text \<open>
  The result file is absent at each of the first \<open>n\<close> polls of a loop entered in \<open>w\<close>.
\<close>

definition absent_for :: "(nat \<Rightarrow> store \<Rightarrow> store) \<Rightarrow> path \<Rightarrow> nat \<Rightarrow> world \<Rightarrow> bool" where
  "absent_for env result_path n w =
     (\<forall>j \<in> {..<n}. files (disk ((tick env result_path ^^ j) w)) result_path = None)"

text \<open>What \<open>get_current_index\<close> depends on: the cursor file and the right to read it.\<close>

definition cursor_view :: "store \<Rightarrow> content option \<times> bool" where
  "cursor_view d = (files d STATE_FILE, denied d ReadAcc STATE_FILE)"

text \<open>A worker that leaves the cursor file and the right to read it as they are.\<close>

definition keeps_cursor :: "(nat \<Rightarrow> store \<Rightarrow> store) \<Rightarrow> bool" where
  "keeps_cursor env = (\<forall>t d. cursor_view (env t d) = cursor_view d)"

section \<open>Example directories, workers and requests\<close>

text \<open>A directory that holds the cursor file with the text of \<open>n\<close> and nothing else.\<close>

definition cursor_only :: "int \<Rightarrow> store" where
  "cursor_only n =
     \<lparr>files = (\<lambda>p. if p = STATE_FILE then Some (str_int n) else None),
      denied = (\<lambda>a p. False)\<rparr>"

definition at_start :: "store \<Rightarrow> world" where
  "at_start d = \<lparr>disk = d, now = 0, trace = []\<rparr>"

text \<open>
  A worker that does nothing, and one that writes a text to a path in every sleep that
  starts at time \<open>t0\<close> or later.
\<close>

definition idle :: "nat \<Rightarrow> store \<Rightarrow> store" where
  "idle t d = d"

definition writes_from :: "nat \<Rightarrow> path \<Rightarrow> content \<Rightarrow> nat \<Rightarrow> store \<Rightarrow> store" where
  "writes_from t0 p c t d = (if t0 \<le> t then d\<lparr>files := (files d)(p := Some c)\<rparr> else d)"

text \<open>
  A request without a body that finds the cursor at 0: the trigger data it publishes, the
  world after the read of the cursor, and the world in which it enters the polling loop.
\<close>

definition first_job :: json where
  "first_job = JObj [(''index'', JInt 0)]"

definition cursor_read :: world where
  "cursor_read = emit (Open_read STATE_FILE) (at_start (cursor_only 0))"

definition waiting :: "(nat \<Rightarrow> store \<Rightarrow> store) \<Rightarrow> world" where
  "waiting env = snd (write_trigger env first_job cursor_read)"

text \<open>The directory of that request once the trigger is published.\<close>

definition published :: store where
  "published =
     \<lparr>files = (\<lambda>p. if p = STATE_FILE then Some (str_int 0)
                     else if p = TRIGGER_FILE then Some (json_dump first_job) else None),
      denied = (\<lambda>a p. False)\<rparr>"

text \<open>The text \<^verbatim>\<open>not json\<close>, which neither reader accepts.\<close>

definition garbage :: content where
  "garbage = \<lparr>as_int = None, as_json = None\<rparr>"

text \<open>
  What the worker writes for a job that failed and for one that succeeded:
  \<^verbatim>\<open>{"error": "oom"}\<close> and \<^verbatim>\<open>{"video": "out.mp4"}\<close>.
\<close>

definition worker_error :: json where
  "worker_error = JObj [(''error'', JStr ''oom'')]"

definition worker_video :: json where
  "worker_video = JObj [(''video'', JStr ''out.mp4'')]"

text \<open>
  The directory of the first request when the handler may not remove the result file of
  index 0 (a directory with the sticky bit set, the worker running as another user).
\<close>

definition no_removal :: store where
  "no_removal = (cursor_only 0)\<lparr>denied := (\<lambda>a p. a = RemoveAcc \<and> p = RESULT_INDEX 0)\<rparr>"

section \<open>The primitives and the polling loop\<close>

lemma emit_sel [simp]:
  "disk (emit e w) = disk w" "now (emit e w) = now w" "trace (emit e w) = trace w @ [e]"
  by (simp_all add: emit_def)

lemma set_file_sel [simp]:
  "files (disk (set_file p v w)) = (files (disk w))(p := v)"
  "denied (disk (set_file p v w)) = denied (disk w)"
  "now (set_file p v w) = now w"
  "trace (set_file p v w) = trace w"
  by (simp_all add: set_file_def)

lemma sleep_sel [simp]:
  "disk (sleep env d w) = env (now w) (disk w)"
  "now (sleep env d w) = now w + d"
  "trace (sleep env d w) = trace w @ [Sleep d]"
  by (simp_all add: sleep_def)

lemma tick_sel [simp]:
  "disk (tick env p w) = env (now w) (disk w)"
  "now (tick env p w) = now w + CHECK_INTERVAL"
  "trace (tick env p w) = trace w @ [Exists p, Sleep CHECK_INTERVAL]"
  by (simp_all add: tick_def)

lemma now_ticks: "now ((tick env p ^^ j) w) = now w + j * CHECK_INTERVAL"
  by (induction j) simp_all

lemma wait_step:
  assumes "now w - s < MAX_WAIT_TIME" "files (disk w) p = None"
  shows "wait_for_result env i p s w = wait_for_result env i p s (tick env p w)"
  using assms by (subst wait_for_result.simps) (simp add: path_exists_def tick_def)

lemma wait_found_now:
  assumes "now w - s < MAX_WAIT_TIME" "files (disk w) p \<noteq> None"
  shows "wait_for_result env i p s w = process_result i p (emit (Exists p) w)"
  using assms by (subst wait_for_result.simps) (auto simp add: path_exists_def)

lemma wait_over:
  assumes "\<not> now w - s < MAX_WAIT_TIME"
  shows "wait_for_result env i p s w = on_timeout w"
  using assms by (subst wait_for_result.simps) simp

lemma wait_found:
  assumes "\<forall>j<k. files (disk ((tick env p ^^ j) w)) p = None"
    and "files (disk ((tick env p ^^ k) w)) p \<noteq> None"
    and "now w - s + k * CHECK_INTERVAL < MAX_WAIT_TIME"
  shows "wait_for_result env i p s w = process_result i p (emit (Exists p) ((tick env p ^^ k) w))"
  using assms
proof (induction k arbitrary: w)
  case 0
  then show ?case by (simp add: wait_found_now)
next
  case (Suc k)
  have a0: "files (disk w) p = None" using Suc.prems(1) by (metis funpow_0 zero_less_Suc)
  have t: "now w - s < MAX_WAIT_TIME" using Suc.prems(3) by simp
  have shift: "\<And>j. (tick env p ^^ j) (tick env p w) = (tick env p ^^ Suc j) w"
    by (simp add: funpow_swap1)
  have "wait_for_result env i p s (tick env p w) =
      process_result i p (emit (Exists p) ((tick env p ^^ k) (tick env p w)))"
  proof (rule Suc.IH)
    show "\<forall>j<k. files (disk ((tick env p ^^ j) (tick env p w))) p = None"
      using Suc.prems(1) by (simp add: shift del: funpow.simps)
    show "files (disk ((tick env p ^^ k) (tick env p w))) p \<noteq> None"
      using Suc.prems(2) by (simp add: shift del: funpow.simps)
    show "now (tick env p w) - s + k * CHECK_INTERVAL < MAX_WAIT_TIME"
      using Suc.prems(3) by simp
  qed
  then show ?case using wait_step [OF t a0] by (simp add: shift del: funpow.simps)
qed

lemma wait_timeout:
  assumes "\<forall>j<n. files (disk ((tick env p ^^ j) w)) p = None"
    and "s \<le> now w" and "now w - s + n * CHECK_INTERVAL = MAX_WAIT_TIME"
  shows "wait_for_result env i p s w = on_timeout ((tick env p ^^ n) w)"
  using assms
proof (induction n arbitrary: w)
  case 0
  then show ?case by (simp add: wait_over)
next
  case (Suc n)
  have a0: "files (disk w) p = None" using Suc.prems(1) by (metis funpow_0 zero_less_Suc)
  have t: "now w - s < MAX_WAIT_TIME" using Suc.prems(3) by (simp add: CHECK_INTERVAL_def)
  have shift: "\<And>j. (tick env p ^^ j) (tick env p w) = (tick env p ^^ Suc j) w"
    by (simp add: funpow_swap1)
  have "wait_for_result env i p s (tick env p w) = on_timeout ((tick env p ^^ n) (tick env p w))"
  proof (rule Suc.IH)
    show "\<forall>j<n. files (disk ((tick env p ^^ j) (tick env p w))) p = None"
      using Suc.prems(1) by (simp add: shift del: funpow.simps)
    show "s \<le> now (tick env p w)" using Suc.prems(2) by simp
    show "now (tick env p w) - s + n * CHECK_INTERVAL = MAX_WAIT_TIME"
      using Suc.prems(2,3) by simp
  qed
  then show ?case using wait_step [OF t a0] by (simp add: shift del: funpow.simps)
qed

section \<open>The cursor read\<close>

text \<open>
  Claim C8, as amended. Whenever the cursor file is missing, or is there and can be
  opened for reading, \<open>get_current_index\<close> returns an integer and raises nothing: the
  integer the text holds if \<^verbatim>\<open>int\<close> accepts it, and 0 if the file is missing or its
  text does not parse. When the file is there and cannot be opened, the OSError leaves
  the function. In every case the directory is left as it was and the read is the only
  operation.
\<close>

theorem get_current_index_total:
  "get_current_index w =
     (if files (disk w) STATE_FILE \<noteq> None \<and> denied (disk w) ReadAcc STATE_FILE
      then Inl OSError
      else Inr (case files (disk w) STATE_FILE of
                  None \<Rightarrow> 0
                | Some t \<Rightarrow> (case as_int t of None \<Rightarrow> 0 | Some n \<Rightarrow> n)),
      emit (Open_read STATE_FILE) w)"
  by (auto simp: get_current_index_def read_text_def split: option.splits)

theorem get_current_index_total_witness:
  "(files (disk (at_start (cursor_only 7))) STATE_FILE = None
      \<or> \<not> denied (disk (at_start (cursor_only 7))) ReadAcc STATE_FILE)
   \<and> get_current_index (at_start (cursor_only 7)) =
       (Inr 7, emit (Open_read STATE_FILE) (at_start (cursor_only 7)))"
  using get_current_index_total [of "at_start (cursor_only 7)"]
  by (simp add: at_start_def cursor_only_def str_int_def)

text \<open>
  The claim as written fails for a cursor file that exists and cannot be opened: the
  OSError is neither a FileNotFoundError nor a ValueError, and leaves the function.
\<close>

theorem get_current_index_raises:
  "files (disk (at_start ((cursor_only 7)
       \<lparr>denied := (\<lambda>a p. a = ReadAcc \<and> p = STATE_FILE)\<rparr>))) STATE_FILE = Some (str_int 7)
   \<and> fst (get_current_index (at_start ((cursor_only 7)
       \<lparr>denied := (\<lambda>a p. a = ReadAcc \<and> p = STATE_FILE)\<rparr>))) = Inl OSError"
  by (simp add: get_current_index_def read_text_def at_start_def cursor_only_def)

section \<open>The sequence is exhausted\<close>

text \<open>
  Claim C6. A request in sequential mode (the body gives no truthy \<^verbatim>\<open>custom_params\<close>)
  that finds the cursor at or above the total number of samples answers at once with
  status 400 and the body \<^verbatim>\<open>{"error": "All samples generated", "index": c}\<close>. The world
  it leaves is the one it found, with the read of the cursor file as the only operation:
  no trigger is written, no file is touched, and the clock has not moved.
\<close>

theorem all_samples_generated:
  assumes "dict_get (request_data body) ''custom_params'' = Inr cp" and "\<not> truthy cp"
    and "fst (get_current_index w) = Inr c" and "get_total_samples \<le> c"
  shows "generate_next env body w =
     (Respond (JObj [(''error'', JStr ''All samples generated''), (''index'', JInt c)]) 400,
      emit (Open_read STATE_FILE) w)"
proof -
  have "snd (get_current_index w) = emit (Open_read STATE_FILE) w"
    by (simp add: get_current_index_def read_text_def split: option.splits sum.splits)
  with assms(3) have "get_current_index w = (Inr c, emit (Open_read STATE_FILE) w)"
    by (metis prod.collapse)
  with assms(1,2,4) show ?thesis
    by (simp add: generate_next_def choose_index_def)
qed

theorem all_samples_generated_witness:
  "dict_get (request_data None) ''custom_params'' = Inr JNull \<and> \<not> truthy JNull
   \<and> fst (get_current_index (at_start (cursor_only 1000))) = Inr 1000
   \<and> get_total_samples \<le> 1000
   \<and> generate_next idle None (at_start (cursor_only 1000)) =
       (Respond (JObj [(''error'', JStr ''All samples generated''), (''index'', JInt 1000)]) 400,
        emit (Open_read STATE_FILE) (at_start (cursor_only 1000)))"
proof -
  have a: "dict_get (request_data None) ''custom_params'' = Inr JNull"
    by (simp add: dict_get_def request_data_def)
  have b: "\<not> truthy JNull" by simp
  have c: "fst (get_current_index (at_start (cursor_only 1000))) = Inr 1000"
    by (simp add: get_current_index_def read_text_def at_start_def cursor_only_def str_int_def)
  have d: "get_total_samples \<le> 1000" by (simp add: get_total_samples_def)
  show ?thesis using all_samples_generated [OF a b c d, of idle] a b c d by simp
qed

section \<open>Custom mode\<close>

lemma choose_index_custom:
  assumes "body = Some (JObj kvs)" and "map_of kvs ''custom_params'' = Some cp" and "truthy cp"
  shows "choose_index body w =
     (Inr (- 1, JObj [(''index'', JInt (- 1)), (''custom_params'', cp)]), w)"
proof -
  have "kvs \<noteq> []" using assms(2) by auto
  then have "request_data body = JObj kvs" using assms(1) by (simp add: request_data_def)
  then have "dict_get (request_data body) ''custom_params'' = Inr cp"
    using assms(2) by (simp add: dict_get_def)
  then show ?thesis using assms(3)
    by (simp add: choose_index_def required_fields_def)
qed

lemma publish_trigger:
  assumes "publish td w = (Inr (), w1)"
  shows "files (disk w1) TRIGGER_FILE = Some (json_dump td)"
  using assms
  by (auto simp: publish_def write_text_def os_replace_def split: if_splits option.splits)

lemma publish_cursor_trace:
  "filter (touches STATE_FILE) (trace (snd (publish td w))) = filter (touches STATE_FILE) (trace w)"
  by (auto simp: publish_def write_text_def os_replace_def split: if_splits option.splits)

lemma write_trigger_cursor_trace:
  "filter (touches STATE_FILE) (trace (snd (write_trigger env td w)))
     = filter (touches STATE_FILE) (trace w)"
  using publish_cursor_trace [of td w]
  by (cases "publish td w") (auto simp: write_trigger_def split: sum.splits)

lemma on_timeout_cursor_trace:
  "filter (touches STATE_FILE) (trace (snd (on_timeout w))) = filter (touches STATE_FILE) (trace w)"
  by (cases "files (disk w) TRIGGER_FILE")
     (auto simp: on_timeout_def path_exists_def os_remove_def)

lemma remove_corrupted_cursor_trace:
  "p \<noteq> STATE_FILE \<Longrightarrow>
   filter (touches STATE_FILE) (trace (remove_corrupted p w)) = filter (touches STATE_FILE) (trace w)"
  by (cases "files (disk w) p")
     (auto simp: remove_corrupted_def path_exists_def os_remove_def)

lemma try_result_custom_cursor_trace:
  "p \<noteq> STATE_FILE \<Longrightarrow>
   filter (touches STATE_FILE) (trace (snd (try_result (- 1) p w)))
     = filter (touches STATE_FILE) (trace w)"
  by (auto simp: try_result_def read_text_def os_remove_def split: option.splits sum.splits)

lemma process_result_custom_cursor_trace:
  assumes "p \<noteq> STATE_FILE"
  shows "filter (touches STATE_FILE) (trace (snd (process_result (- 1) p w)))
     = filter (touches STATE_FILE) (trace w)"
proof (cases "try_result (- 1) p w")
  case (Pair r w1)
  have t: "filter (touches STATE_FILE) (trace w1) = filter (touches STATE_FILE) (trace w)"
    using try_result_custom_cursor_trace [OF assms, of w] Pair by simp
  show ?thesis
  proof (cases r)
    case (Inl e)
    then show ?thesis using Pair t assms
      by (simp add: process_result_def remove_corrupted_cursor_trace)
  next
    case (Inr out)
    then show ?thesis using Pair t by (simp add: process_result_def)
  qed
qed

lemma wait_custom_cursor_trace:
  assumes "p \<noteq> STATE_FILE" and "i = - 1"
  shows "filter (touches STATE_FILE) (trace (snd (wait_for_result env i p s w)))
     = filter (touches STATE_FILE) (trace w)"
  using assms
proof (induction env i p s w rule: wait_for_result.induct)
  case (1 env i p s w)
  show ?case
  proof (cases "now w - s < MAX_WAIT_TIME")
    case False
    then show ?thesis by (simp add: wait_over on_timeout_cursor_trace)
  next
    case True
    show ?thesis
    proof (cases "files (disk w) p = None")
      case absent: True
      have pe: "path_exists p w = (False, emit (Exists p) w)"
        using absent by (simp add: path_exists_def)
      have "filter (touches STATE_FILE)
              (trace (snd (wait_for_result env i p s (sleep env CHECK_INTERVAL (emit (Exists p) w)))))
            = filter (touches STATE_FILE) (trace (sleep env CHECK_INTERVAL (emit (Exists p) w)))"
        using "1.IH" [OF True pe [symmetric] refl] "1.prems" by simp
      then show ?thesis
        using wait_step [OF True absent, of env i] "1.prems" by (simp add: tick_def)
    next
      case False
      then show ?thesis
        using wait_found_now [OF True False, of env i] "1.prems"
        by (simp add: process_result_custom_cursor_trace)
    qed
  qed
qed

lemma falsy_custom_params:
  assumes "body = Some (JObj kvs)" and "map_of kvs ''custom_params'' = Some cp"
    and "\<not> truthy cp"
  shows "choose_index body w = choose_index None w"
proof -
  have "kvs \<noteq> []" using assms(2) by auto
  then have "request_data body = JObj kvs" using assms(1) by (simp add: request_data_def)
  then have "dict_get (request_data body) ''custom_params'' = Inr cp"
    using assms(2) by (simp add: dict_get_def)
  moreover have "dict_get (request_data None) ''custom_params'' = Inr JNull"
    by (simp add: dict_get_def request_data_def)
  ultimately show ?thesis using assms(3) by (simp add: choose_index_def)
qed

text \<open>
  Claim C3, as amended. Take a request whose JSON body is an object with a
  \<^verbatim>\<open>custom_params\<close> field. If the value is truthy (any non-empty mapping is one), the
  handler goes on in custom mode whatever the cursor file holds: from the world the
  request found, with no read of the cursor and no bound check, it publishes the trigger
  data with index \<open>-1\<close> and the custom parameters, answers 500 if the publication
  fails, and otherwise sleeps and waits for \<^verbatim>\<open>result_custom.json\<close> with index
  \<open>-1\<close>; a publication that succeeds leaves the dump of these data in the trigger
  file. If the value is falsy, the request is handled as the request without a body is,
  in sequential mode.
\<close>

theorem custom_mode_proceeds:
  assumes "body = Some (JObj kvs)" and "map_of kvs ''custom_params'' = Some cp"
  shows "generate_next env body w
       = (if truthy cp then
            (case publish (JObj [(''index'', JInt (- 1)), (''custom_params'', cp)]) w of
               (Inl e, w1) \<Rightarrow>
                 (Respond (JObj [(''error'',
                    JStr (''Failed to trigger generation: '' @ str_exn e))]) 500,
                  emit (Logged ERROR ''traceback'')
                    (emit (Logged ERROR ''Failed to write trigger file'') w1))
             | (Inr u, w1) \<Rightarrow>
                 wait_for_result env (- 1) RESULT_CUSTOM (now w1 + 100) (sleep env 100 w1))
          else generate_next env None w)
     \<and> (fst (publish (JObj [(''index'', JInt (- 1)), (''custom_params'', cp)]) w) = Inr ()
         \<longrightarrow> files (disk (snd (publish (JObj [(''index'', JInt (- 1)), (''custom_params'', cp)]) w)))
               TRIGGER_FILE
             = Some (json_dump (JObj [(''index'', JInt (- 1)), (''custom_params'', cp)])))"
proof -
  let ?td = "JObj [(''index'', JInt (- 1)), (''custom_params'', cp)]"
  have custom: "generate_next env body w
       = (case publish ?td w of
            (Inl e, w1) \<Rightarrow>
              (Respond (JObj [(''error'',
                 JStr (''Failed to trigger generation: '' @ str_exn e))]) 500,
               emit (Logged ERROR ''traceback'')
                 (emit (Logged ERROR ''Failed to write trigger file'') w1))
          | (Inr u, w1) \<Rightarrow>
              wait_for_result env (- 1) RESULT_CUSTOM (now w1 + 100) (sleep env 100 w1))"
    if "truthy cp"
    using choose_index_custom [OF assms that, of w]
    by (cases "publish ?td w")
       (auto simp: generate_next_def write_trigger_def result_file_path_def split: sum.splits)
  have seq: "generate_next env body w = generate_next env None w" if "\<not> truthy cp"
    using falsy_custom_params [OF assms that, of w] by (simp add: generate_next_def)
  have pub: "fst (publish ?td w) = Inr ()
      \<longrightarrow> files (disk (snd (publish ?td w))) TRIGGER_FILE = Some (json_dump ?td)"
    using publish_trigger [of ?td w] by (metis prod.collapse)
  show ?thesis using custom seq pub by simp
qed

theorem custom_mode_proceeds_witness:
  "Some (JObj [(''custom_params'', JObj [(''x'', JInt 1)])])
     = Some (JObj [(''custom_params'', JObj [(''x'', JInt 1)])])
   \<and> map_of [(''custom_params'', JObj [(''x'', JInt 1)])] ''custom_params''
       = Some (JObj [(''x'', JInt 1)])
   \<and> truthy (JObj [(''x'', JInt 1)])
   \<and> fst (publish (JObj [(''index'', JInt (- 1)), (''custom_params'', JObj [(''x'', JInt 1)])])
         (at_start (cursor_only 1000))) = Inr ()
   \<and> generate_next idle (Some (JObj [(''custom_params'', JObj [(''x'', JInt 1)])]))
         (at_start (cursor_only 1000))
       = wait_for_result idle (- 1) RESULT_CUSTOM
           (now (snd (publish (JObj [(''index'', JInt (- 1)),
              (''custom_params'', JObj [(''x'', JInt 1)])]) (at_start (cursor_only 1000)))) + 100)
           (sleep idle 100 (snd (publish (JObj [(''index'', JInt (- 1)),
              (''custom_params'', JObj [(''x'', JInt 1)])]) (at_start (cursor_only 1000)))))
   \<and> files (disk (snd (publish
         (JObj [(''index'', JInt (- 1)), (''custom_params'', JObj [(''x'', JInt 1)])])
         (at_start (cursor_only 1000))))) TRIGGER_FILE
       = Some (json_dump (JObj [(''index'', JInt (- 1)),
           (''custom_params'', JObj [(''x'', JInt 1)])]))
   \<and> Some (JObj [(''custom_params'', JObj [])]) = Some (JObj [(''custom_params'', JObj [])])
   \<and> map_of [(''custom_params'', JObj [])] ''custom_params'' = Some (JObj [])
   \<and> \<not> truthy (JObj [])
   \<and> generate_next idle (Some (JObj [(''custom_params'', JObj [])])) (at_start (cursor_only 0))
       = generate_next idle None (at_start (cursor_only 0))"
proof -
  let ?td = "JObj [(''index'', JInt (- 1)), (''custom_params'', JObj [(''x'', JInt 1)])]"
  let ?W = "at_start (cursor_only 1000)"
  have p: "fst (publish ?td ?W) = Inr ()"
    by (simp add: publish_def write_text_def os_replace_def at_start_def cursor_only_def)
  have m: "map_of [(''custom_params'', JObj [(''x'', JInt 1)])] ''custom_params''
      = Some (JObj [(''x'', JInt 1)])"
    by simp
  have m0: "map_of [(''custom_params'', JObj [])] ''custom_params'' = Some (JObj [])"
    by simp
  note t = custom_mode_proceeds [OF refl m, of idle ?W]
  note t0 = custom_mode_proceeds [OF refl m0, of idle "at_start (cursor_only 0)"]
  have a: "generate_next idle (Some (JObj [(''custom_params'', JObj [(''x'', JInt 1)])])) ?W
      = wait_for_result idle (- 1) RESULT_CUSTOM (now (snd (publish ?td ?W)) + 100)
          (sleep idle 100 (snd (publish ?td ?W)))"
    using t p by (auto split: prod.splits sum.splits)
  have b: "files (disk (snd (publish ?td ?W))) TRIGGER_FILE = Some (json_dump ?td)"
    using t p by simp
  have c: "generate_next idle (Some (JObj [(''custom_params'', JObj [])]))
        (at_start (cursor_only 0))
      = generate_next idle None (at_start (cursor_only 0))"
    using t0 by simp
  show ?thesis using a b c p by simp
qed

text \<open>
  The claim as written fails for a body whose \<^verbatim>\<open>custom_params\<close> is there and falsy:
  with an empty mapping the request is handled in sequential mode, the cursor is read
  and the bound is checked.
\<close>

theorem empty_custom_params_is_sequential:
  "py_in ''custom_params'' (JObj [(''custom_params'', JObj [])]) = Inr True
   \<and> generate_next idle (Some (JObj [(''custom_params'', JObj [])]))
         (at_start (cursor_only 1000))
       = (Respond (JObj [(''error'', JStr ''All samples generated''),
            (''index'', JInt 1000)]) 400,
          emit (Open_read STATE_FILE) (at_start (cursor_only 1000)))"
  by (simp add: generate_next_def choose_index_def dict_get_def request_data_def
      get_current_index_def read_text_def at_start_def cursor_only_def str_int_def
      get_total_samples_def)

text \<open>
  Claim C9. A request in custom mode performs no operation on the cursor file, whatever
  the worker does and however the request ends: the events of the trace that concern
  the cursor file (existence tests, reads, writes, replacements, removals) are those
  that were there before the request.
\<close>

theorem custom_never_touches_cursor:
  assumes "body = Some (JObj kvs)" and "map_of kvs ''custom_params'' = Some cp" and "truthy cp"
  shows "filter (touches STATE_FILE) (trace (snd (generate_next env body w)))
     = filter (touches STATE_FILE) (trace w)"
proof -
  let ?td = "JObj [(''index'', JInt (- 1)), (''custom_params'', cp)]"
  have c: "choose_index body w = (Inr (- 1, ?td), w)"
    using choose_index_custom [OF assms] .
  show ?thesis
  proof (cases "write_trigger env ?td w")
    case (Pair r w2)
    have t: "filter (touches STATE_FILE) (trace w2) = filter (touches STATE_FILE) (trace w)"
      using write_trigger_cursor_trace [of env ?td w] Pair by simp
    show ?thesis
    proof (cases r)
      case (Inl out)
      then show ?thesis using c Pair t by (simp add: generate_next_def)
    next
      case (Inr u)
      then show ?thesis using c Pair t
        by (simp add: generate_next_def result_file_path_def wait_custom_cursor_trace)
    qed
  qed
qed

theorem custom_never_touches_cursor_witness:
  "Some (JObj [(''custom_params'', JObj [(''x'', JInt 1)])])
     = Some (JObj [(''custom_params'', JObj [(''x'', JInt 1)])])
   \<and> map_of [(''custom_params'', JObj [(''x'', JInt 1)])] ''custom_params''
       = Some (JObj [(''x'', JInt 1)])
   \<and> truthy (JObj [(''x'', JInt 1)])
   \<and> filter (touches STATE_FILE) (trace (snd (generate_next idle
         (Some (JObj [(''custom_params'', JObj [(''x'', JInt 1)])]))
         (at_start (cursor_only 0)))))
       = filter (touches STATE_FILE) (trace (at_start (cursor_only 0)))"
  using custom_never_touches_cursor [of "Some (JObj [(''custom_params'', JObj [(''x'', JInt 1)])])"
      "[(''custom_params'', JObj [(''x'', JInt 1)])]" "JObj [(''x'', JInt 1)]" idle
      "at_start (cursor_only 0)"]
  by simp

section \<open>From the request to the polling loop\<close>

lemma generate_next_waits:
  assumes "choose_index body w = (Inr (i, td), w1)" and "write_trigger env td w1 = (Inr (), w2)"
  shows "generate_next env body w = wait_for_result env i (result_file_path i) (now w2) w2"
  using assms by (simp add: generate_next_def)

lemma timeout_run:
  assumes "choose_index body w = (Inr (i, td), w1)" and "write_trigger env td w1 = (Inr (), w2)"
    and "absent_for env (result_file_path i) MAX_WAIT_TIME w2"
  shows "generate_next env body w
     = on_timeout ((tick env (result_file_path i) ^^ MAX_WAIT_TIME) w2)"
proof -
  have "wait_for_result env i (result_file_path i) (now w2) w2
      = on_timeout ((tick env (result_file_path i) ^^ MAX_WAIT_TIME) w2)"
    using assms(3) by (intro wait_timeout) (simp_all add: absent_for_def CHECK_INTERVAL_def)
  then show ?thesis using generate_next_waits [OF assms(1,2)] by simp
qed

lemma found_run:
  assumes "choose_index body w = (Inr (i, td), w1)" and "write_trigger env td w1 = (Inr (), w2)"
    and "absent_for env (result_file_path i) k w2" and "k * CHECK_INTERVAL < MAX_WAIT_TIME"
    and "files (disk ((tick env (result_file_path i) ^^ k) w2)) (result_file_path i) \<noteq> None"
  shows "generate_next env body w
     = process_result i (result_file_path i)
         (emit (Exists (result_file_path i)) ((tick env (result_file_path i) ^^ k) w2))"
proof -
  have "wait_for_result env i (result_file_path i) (now w2) w2
      = process_result i (result_file_path i)
         (emit (Exists (result_file_path i)) ((tick env (result_file_path i) ^^ k) w2))"
    using assms(3,4,5) by (intro wait_found) (simp_all add: absent_for_def)
  then show ?thesis using generate_next_waits [OF assms(1,2)] by simp
qed

text \<open>What the phases before the loop and the ticks leave alone.\<close>

lemma cursor_view_ticks:
  "keeps_cursor env \<Longrightarrow> cursor_view (disk ((tick env p ^^ n) w)) = cursor_view (disk w)"
  by (induction n) (simp_all add: keeps_cursor_def)

lemma mutates_ticks:
  "filter (mutates q) (trace ((tick env p ^^ n) w)) = filter (mutates q) (trace w)"
  by (induction n) simp_all

lemma get_current_index_sel:
  "disk (snd (get_current_index w)) = disk w"
  "now (snd (get_current_index w)) = now w"
  "trace (snd (get_current_index w)) = trace w @ [Open_read STATE_FILE]"
  by (simp_all add: get_current_index_def read_text_def split: option.splits sum.splits)

lemma choose_index_sel:
  "disk (snd (choose_index body w)) = disk w"
  "now (snd (choose_index body w)) = now w"
  "filter (mutates q) (trace (snd (choose_index body w))) = filter (mutates q) (trace w)"
  using get_current_index_sel [of w]
  by (auto simp: choose_index_def split: sum.splits prod.splits)

lemma publish_sel:
  "cursor_view (disk (snd (publish td w))) = cursor_view (disk w)"
  "now (snd (publish td w)) = now w"
  "filter (mutates STATE_FILE) (trace (snd (publish td w))) = filter (mutates STATE_FILE) (trace w)"
  by (auto simp: publish_def write_text_def os_replace_def cursor_view_def
      split: if_splits option.splits)

lemma write_trigger_ok:
  assumes "write_trigger env td w = (Inr (), w2)"
  shows "w2 = sleep env 100 (snd (publish td w))"
  using assms by (cases "publish td w") (auto simp: write_trigger_def split: sum.splits)

lemma write_trigger_sel:
  assumes "write_trigger env td w = (Inr (), w2)"
  shows "keeps_cursor env \<Longrightarrow> cursor_view (disk w2) = cursor_view (disk w)"
    and "now w2 = now w + 100"
    and "filter (mutates STATE_FILE) (trace w2) = filter (mutates STATE_FILE) (trace w)"
  using write_trigger_ok [OF assms] publish_sel [of td w]
  by (simp_all add: keeps_cursor_def)

lemma on_timeout_sel:
  "fst (on_timeout w)
     = Respond (JObj [(''error'', JStr ''Timeout waiting for video generation'')]) 500"
  "files (disk (snd (on_timeout w)))
     = (if denied (disk w) RemoveAcc TRIGGER_FILE then files (disk w)
        else (files (disk w))(TRIGGER_FILE := None))"
  "denied (disk (snd (on_timeout w))) = denied (disk w)"
  "now (snd (on_timeout w)) = now w"
  "filter (mutates STATE_FILE) (trace (snd (on_timeout w))) = filter (mutates STATE_FILE) (trace w)"
  by (cases "files (disk w) TRIGGER_FILE";
      auto simp: on_timeout_def path_exists_def os_remove_def)+

lemma get_current_index_view:
  "cursor_view (disk w') = cursor_view (disk w)
   \<Longrightarrow> fst (get_current_index w') = fst (get_current_index w)"
  by (auto simp: get_current_index_def read_text_def cursor_view_def split: option.splits)


text \<open>The example request.\<close>

lemma example_choose:
  "choose_index None (at_start (cursor_only 0)) = (Inr (0, first_job), cursor_read)"
  by (simp add: choose_index_def dict_get_def request_data_def get_current_index_def
      read_text_def at_start_def cursor_only_def str_int_def get_total_samples_def
      first_job_def cursor_read_def)

lemma example_publish:
  "write_trigger env first_job cursor_read = (Inr (), waiting env)"
  by (simp add: waiting_def write_trigger_def publish_def write_text_def os_replace_def
      cursor_read_def at_start_def cursor_only_def set_file_def)

lemma example_waiting:
  "disk (waiting env) = env 0 published"
  "now (waiting env) = 100"
proof -
  have "files (disk (snd (publish first_job cursor_read))) = files published"
    by (auto simp: publish_def write_text_def os_replace_def cursor_read_def at_start_def
        cursor_only_def set_file_def published_def fun_eq_iff)
  moreover have "denied (disk (snd (publish first_job cursor_read))) = denied published"
    by (simp add: publish_def write_text_def os_replace_def cursor_read_def at_start_def
        cursor_only_def set_file_def published_def)
  ultimately have d: "disk (snd (publish first_job cursor_read)) = published"
    by simp
  have w: "waiting env = sleep env 100 (snd (publish first_job cursor_read))"
    using write_trigger_ok [of env first_job cursor_read "waiting env"]
    by (simp add: waiting_def write_trigger_def publish_def write_text_def os_replace_def
        cursor_read_def at_start_def cursor_only_def)
  show "disk (waiting env) = env 0 published"
    using d by (simp add: w publish_sel cursor_read_def at_start_def)
  show "now (waiting env) = 100"
    by (simp add: w publish_sel cursor_read_def at_start_def)
qed

lemma disk_ticks_idle: "disk ((tick idle p ^^ n) w) = disk w"
  by (induction n) (simp_all add: idle_def)

lemma keeps_cursor_idle: "keeps_cursor idle"
  by (simp add: keeps_cursor_def idle_def)

lemma example_idle_absent: "absent_for idle (result_file_path 0) n (waiting idle)"
  by (simp add: absent_for_def disk_ticks_idle example_waiting idle_def published_def
      result_file_path_def)

section \<open>Timeout\<close>

text \<open>
  Claim C2. Take a request that chose an index and published its trigger, and whose
  result file is absent at every poll of the loop (there are \<open>MAX_WAIT_TIME\<close> of them,
  one per second). It is answered with status 500 and the body
  \<^verbatim>\<open>{"error": "Timeout waiting for video generation"}\<close>. The trigger file is removed
  unless the removal is refused, in which case the files are left as they were when the
  loop gave up, and the answer is the same. The handler has done nothing that changes
  the cursor file, so that, the worker leaving the cursor alone, the next read of the
  cursor gives what this request read.
\<close>

theorem timeout_leaves_cursor:
  assumes "choose_index body w = (Inr (i, td), w1)"
    and "write_trigger env td w1 = (Inr (), w2)"
    and "absent_for env (result_file_path i) MAX_WAIT_TIME w2"
  shows "fst (generate_next env body w)
       = Respond (JObj [(''error'', JStr ''Timeout waiting for video generation'')]) 500
     \<and> files (disk (snd (generate_next env body w)))
       = (if denied (disk ((tick env (result_file_path i) ^^ MAX_WAIT_TIME) w2))
               RemoveAcc TRIGGER_FILE
          then files (disk ((tick env (result_file_path i) ^^ MAX_WAIT_TIME) w2))
          else (files (disk ((tick env (result_file_path i) ^^ MAX_WAIT_TIME) w2)))
                 (TRIGGER_FILE := None))
     \<and> filter (mutates STATE_FILE) (trace (snd (generate_next env body w)))
       = filter (mutates STATE_FILE) (trace w)
     \<and> (keeps_cursor env \<longrightarrow>
          fst (get_current_index (snd (generate_next env body w))) = fst (get_current_index w))"
proof -
  let ?wT = "(tick env (result_file_path i) ^^ MAX_WAIT_TIME) w2"
  have run: "generate_next env body w = on_timeout ?wT"
    using timeout_run [OF assms] .
  have w1: "w1 = snd (choose_index body w)" using assms(1) by simp
  have tr: "filter (mutates STATE_FILE) (trace (snd (on_timeout ?wT)))
      = filter (mutates STATE_FILE) (trace w)"
    using write_trigger_sel(3) [OF assms(2)] choose_index_sel(3) [of STATE_FILE body w]
    by (simp add: on_timeout_sel mutates_ticks w1)
  have cur: "fst (get_current_index (snd (on_timeout ?wT))) = fst (get_current_index w)"
    if k: "keeps_cursor env"
  proof (rule get_current_index_view)
    have "cursor_view (disk (snd (on_timeout ?wT))) = cursor_view (disk ?wT)"
      by (simp add: cursor_view_def on_timeout_sel)
    also have "\<dots> = cursor_view (disk w2)" using k by (rule cursor_view_ticks)
    also have "\<dots> = cursor_view (disk w1)" using write_trigger_sel(1) [OF assms(2) k] .
    also have "\<dots> = cursor_view (disk w)" by (simp add: w1 choose_index_sel)
    finally show "cursor_view (disk (snd (on_timeout ?wT))) = cursor_view (disk w)" .
  qed
  show ?thesis using tr cur by (simp add: run on_timeout_sel)
qed

theorem timeout_leaves_cursor_witness:
  "choose_index None (at_start (cursor_only 0)) = (Inr (0, first_job), cursor_read)
   \<and> write_trigger idle first_job cursor_read = (Inr (), waiting idle)
   \<and> absent_for idle (result_file_path 0) MAX_WAIT_TIME (waiting idle)
   \<and> keeps_cursor idle
   \<and> fst (generate_next idle None (at_start (cursor_only 0)))
       = Respond (JObj [(''error'', JStr ''Timeout waiting for video generation'')]) 500
   \<and> files (disk (snd (generate_next idle None (at_start (cursor_only 0))))) TRIGGER_FILE = None
   \<and> filter (mutates STATE_FILE) (trace (snd (generate_next idle None (at_start (cursor_only 0)))))
       = filter (mutates STATE_FILE) (trace (at_start (cursor_only 0)))
   \<and> fst (get_current_index (snd (generate_next idle None (at_start (cursor_only 0)))))
       = fst (get_current_index (at_start (cursor_only 0)))"
  using timeout_leaves_cursor [OF example_choose example_publish example_idle_absent]
    example_choose example_publish example_idle_absent [of MAX_WAIT_TIME] keeps_cursor_idle
  by (simp add: disk_ticks_idle example_waiting idle_def published_def)

section \<open>The time a request blocks\<close>

text \<open>
  Claim C4. The claim bounds the time between the publication of the trigger and the
  answer by \<open>MAX_WAIT_TIME\<close>. The handler sleeps 100 seconds right after
  \<^verbatim>\<open>os.replace\<close>, before it takes \<open>start_time\<close>: the request below, whose result
  never comes, starts at time 0 and answers at time 30100, the ceiling being 30000.
\<close>

theorem blocked_beyond_ceiling:
  "fst (generate_next idle None (at_start (cursor_only 0)))
       = Respond (JObj [(''error'', JStr ''Timeout waiting for video generation'')]) 500
   \<and> now (at_start (cursor_only 0)) = 0
   \<and> now (snd (generate_next idle None (at_start (cursor_only 0)))) = 30100
   \<and> MAX_WAIT_TIME = 30000"
  using timeout_run [OF example_choose example_publish example_idle_absent]
  by (simp add: on_timeout_sel now_ticks example_waiting at_start_def
      MAX_WAIT_TIME_def CHECK_INTERVAL_def)

section \<open>The result file is found\<close>

lemma result_file_path_not_cursor [simp]:
  "result_file_path i \<noteq> STATE_FILE" "STATE_FILE \<noteq> result_file_path i"
  by (simp_all add: result_file_path_def)

lemma choose_index_sequential:
  assumes "dict_get (request_data body) ''custom_params'' = Inr cp" and "\<not> truthy cp"
    and "fst (get_current_index w) = Inr i" and "i < get_total_samples"
  shows "choose_index body w
     = (Inr (i, JObj [(''index'', JInt i)]), emit (Open_read STATE_FILE) w)"
proof -
  have "snd (get_current_index w) = emit (Open_read STATE_FILE) w"
    by (simp add: get_current_index_def read_text_def split: option.splits sum.splits)
  with assms(3) have "get_current_index w = (Inr i, emit (Open_read STATE_FILE) w)"
    by (metis prod.collapse)
  with assms(1,2,4) show ?thesis by (simp add: choose_index_def)
qed

lemma choose_index_sequential_index:
  assumes "dict_get (request_data body) ''custom_params'' = Inr cp" and "\<not> truthy cp"
    and "choose_index body w = (Inr (i, td), w1)"
  shows "fst (get_current_index w) = Inr i"
  using assms
  by (cases "get_current_index w")
     (auto simp: choose_index_def split: sum.splits if_splits)

lemma remove_corrupted_present:
  assumes "files (disk w) p = Some t"
  shows "remove_corrupted p w
     = (if denied (disk w) RemoveAcc p
        then emit (Logged WARNING ''Failed to remove corrupted result file'')
               (emit (Remove p) (emit (Exists p) w))
        else emit (Remove p) (set_file p None (emit (Exists p) w)))"
  using assms by (simp add: remove_corrupted_def path_exists_def os_remove_def)

lemma process_result_corrupt:
  assumes "files (disk w) p = Some t" and "denied (disk w) ReadAcc p \<or> as_json t = None"
  shows "process_result i p w
     = (Respond (JObj [(''error'', JStr (''Error processing result: ''
            @ str_exn (if denied (disk w) ReadAcc p then OSError else ValueError)))]) 500,
        remove_corrupted p
          (emit (Logged ERROR ''traceback'')
            (emit (Logged ERROR ''Error reading/parsing result file'')
              (emit (Open_read p) w))))"
  using assms by (auto simp: process_result_def try_result_def read_text_def)

lemma process_result_ok:
  assumes "files (disk w) p = Some t" and "\<not> denied (disk w) ReadAcc p"
    and "as_json t = Some payload" and "\<not> denied (disk w) RemoveAcc p"
    and "i \<noteq> - 1 \<longrightarrow> \<not> denied (disk w) WriteAcc STATE_FILE"
    and "py_in ''error'' payload = Inr b"
  shows "process_result i p w
     = (Respond payload (if b then 500 else 200),
        (if i \<noteq> - 1
         then emit (Open_write STATE_FILE) (set_file STATE_FILE (Some (str_int (i + 1)))
                (emit (Remove p) (set_file p None (emit (Open_read p) w))))
         else emit (Remove p) (set_file p None (emit (Open_read p) w))))"
  using assms
  by (auto simp: process_result_def try_result_def read_text_def os_remove_def
      update_current_index_def write_text_def)

lemma remove_corrupted_sel:
  assumes "p \<noteq> STATE_FILE"
  shows "cursor_view (disk (remove_corrupted p w)) = cursor_view (disk w)"
    and "filter (mutates STATE_FILE) (trace (remove_corrupted p w))
       = filter (mutates STATE_FILE) (trace w)"
  using assms
  by (cases "files (disk w) p";
      auto simp: remove_corrupted_def path_exists_def os_remove_def cursor_view_def)+

lemma corrupt_run:
  assumes "choose_index body w = (Inr (i, td), w1)"
    and "write_trigger env td w1 = (Inr (), w2)"
    and "rp = result_file_path i"
    and "absent_for env rp k w2" and "k * CHECK_INTERVAL < MAX_WAIT_TIME"
    and "wk = (tick env rp ^^ k) w2"
    and "files (disk wk) rp = Some t"
    and "denied (disk wk) ReadAcc rp \<or> as_json t = None"
  shows "generate_next env body w
     = (Respond (JObj [(''error'', JStr (''Error processing result: ''
            @ str_exn (if denied (disk wk) ReadAcc rp then OSError else ValueError)))]) 500,
        remove_corrupted rp
          (emit (Logged ERROR ''traceback'')
            (emit (Logged ERROR ''Error reading/parsing result file'')
              (emit (Open_read rp) (emit (Exists rp) wk)))))"
proof -
  have found: "files (disk ((tick env (result_file_path i) ^^ k) w2)) (result_file_path i) \<noteq> None"
    using assms(3,6,7) by simp
  have run: "generate_next env body w = process_result i rp (emit (Exists rp) wk)"
    using found_run [OF assms(1,2) _ _ found] assms(3,4,5,6) by simp
  show ?thesis
    using process_result_corrupt [of "emit (Exists rp) wk" rp t i] assms(7,8)
    by (simp add: run)
qed

text \<open>A worker that writes the result file of index 0 during the first sleep of the loop.\<close>

lemma example_late_writer:
  "absent_for (writes_from 100 (RESULT_INDEX 0) c) (RESULT_INDEX 0) 1
     (waiting (writes_from 100 (RESULT_INDEX 0) c))"
  "disk (tick (writes_from 100 (RESULT_INDEX 0) c) (RESULT_INDEX 0)
      (waiting (writes_from 100 (RESULT_INDEX 0) c)))
     = published\<lparr>files := (files published)(RESULT_INDEX 0 := Some c)\<rparr>"
  "now (tick (writes_from 100 (RESULT_INDEX 0) c) (RESULT_INDEX 0)
      (waiting (writes_from 100 (RESULT_INDEX 0) c))) = 101"
  by (simp_all add: absent_for_def lessThan_Suc example_waiting writes_from_def published_def
      CHECK_INTERVAL_def)

lemma keeps_cursor_writes_from: "p \<noteq> STATE_FILE \<Longrightarrow> keeps_cursor (writes_from t0 p c)"
  by (simp add: keeps_cursor_def writes_from_def cursor_view_def)

section \<open>A result file that cannot be parsed\<close>

text \<open>
  Claim C7. Take a request that chose an index and published its trigger, and a poll of
  its loop that finds the result file for the first time, the file being one that cannot
  be read or whose text \<^verbatim>\<open>json.load\<close> rejects. The request is answered with status
  500 and the body \<^verbatim>\<open>{"error": "Error processing result: ..."}\<close>. The file is removed
  unless the removal is refused, in which case the files stay as they were, a warning is
  logged and the answer is the same. After the poll that found the file the handler
  opens it once, logs, tests its existence, tries the removal and returns: the clock
  does not move, so there is no further poll and no second parse.
\<close>

theorem corrupt_result:
  assumes "choose_index body w = (Inr (i, td), w1)"
    and "write_trigger env td w1 = (Inr (), w2)"
    and "rp = result_file_path i"
    and "absent_for env rp k w2" and "k * CHECK_INTERVAL < MAX_WAIT_TIME"
    and "wk = (tick env rp ^^ k) w2"
    and "files (disk wk) rp = Some t"
    and "denied (disk wk) ReadAcc rp \<or> as_json t = None"
  shows "fst (generate_next env body w)
       = Respond (JObj [(''error'', JStr (''Error processing result: ''
            @ str_exn (if denied (disk wk) ReadAcc rp then OSError else ValueError)))]) 500
     \<and> files (disk (snd (generate_next env body w)))
       = (if denied (disk wk) RemoveAcc rp then files (disk wk)
          else (files (disk wk))(rp := None))
     \<and> trace (snd (generate_next env body w))
       = trace wk @ [Exists rp, Open_read rp,
           Logged ERROR ''Error reading/parsing result file'', Logged ERROR ''traceback'',
           Exists rp, Remove rp]
         @ (if denied (disk wk) RemoveAcc rp
            then [Logged WARNING ''Failed to remove corrupted result file''] else [])
     \<and> now (snd (generate_next env body w)) = now wk"
  using assms(7) by (simp add: corrupt_run [OF assms] remove_corrupted_present)

theorem corrupt_result_witness:
  "choose_index None (at_start (cursor_only 0)) = (Inr (0, first_job), cursor_read)
   \<and> write_trigger (writes_from 100 (RESULT_INDEX 0) garbage) first_job cursor_read
       = (Inr (), waiting (writes_from 100 (RESULT_INDEX 0) garbage))
   \<and> RESULT_INDEX 0 = result_file_path 0
   \<and> absent_for (writes_from 100 (RESULT_INDEX 0) garbage) (RESULT_INDEX 0) 1
        (waiting (writes_from 100 (RESULT_INDEX 0) garbage))
   \<and> 1 * CHECK_INTERVAL < MAX_WAIT_TIME
   \<and> files (disk (tick (writes_from 100 (RESULT_INDEX 0) garbage) (RESULT_INDEX 0)
        (waiting (writes_from 100 (RESULT_INDEX 0) garbage)))) (RESULT_INDEX 0) = Some garbage
   \<and> as_json garbage = None
   \<and> fst (generate_next (writes_from 100 (RESULT_INDEX 0) garbage) None (at_start (cursor_only 0)))
       = Respond (JObj [(''error'', JStr ''Error processing result: ValueError'')]) 500
   \<and> files (disk (snd (generate_next (writes_from 100 (RESULT_INDEX 0) garbage) None
        (at_start (cursor_only 0))))) (RESULT_INDEX 0) = None
   \<and> now (snd (generate_next (writes_from 100 (RESULT_INDEX 0) garbage) None
        (at_start (cursor_only 0)))) = 101"
proof -
  let ?env = "writes_from 100 (RESULT_INDEX 0) garbage"
  let ?wk = "tick ?env (RESULT_INDEX 0) (waiting ?env)"
  have rp: "RESULT_INDEX 0 = result_file_path 0" by (simp add: result_file_path_def)
  have k: "1 * CHECK_INTERVAL < MAX_WAIT_TIME"
    by (simp add: CHECK_INTERVAL_def MAX_WAIT_TIME_def)
  have wk: "?wk = (tick ?env (RESULT_INDEX 0) ^^ 1) (waiting ?env)" by simp
  have f: "files (disk ?wk) (RESULT_INDEX 0) = Some garbage"
    by (simp add: example_waiting writes_from_def)
  have g: "denied (disk ?wk) ReadAcc (RESULT_INDEX 0) \<or> as_json garbage = None"
    by (simp add: garbage_def)
  have ga: "as_json garbage = None" by (simp add: garbage_def)
  have d: "\<not> denied (disk ?wk) ReadAcc (RESULT_INDEX 0)"
    "\<not> denied (disk ?wk) RemoveAcc (RESULT_INDEX 0)"
    by (simp_all add: example_waiting writes_from_def published_def)
  note T = corrupt_result [OF example_choose example_publish rp example_late_writer(1) k wk f g]
  have r1: "fst (generate_next ?env None (at_start (cursor_only 0)))
      = Respond (JObj [(''error'', JStr ''Error processing result: ValueError'')]) 500"
    using T d by simp
  have r2: "files (disk (snd (generate_next ?env None (at_start (cursor_only 0)))))
      (RESULT_INDEX 0) = None"
    using T d by simp
  have r3: "now (snd (generate_next ?env None (at_start (cursor_only 0)))) = 101"
    using T by (simp add: example_waiting CHECK_INTERVAL_def)
  show ?thesis
    using example_choose example_publish [of ?env] rp example_late_writer(1) [of garbage]
      k f ga r1 r2 r3
    by blast
qed

text \<open>
  Claim C10. In sequential mode, a request whose result file is found and cannot be read
  or parsed does nothing that changes the cursor file: its trace gains no write,
  replacement or removal of it. The worker leaving the cursor alone, the next read of
  the cursor gives the index of this request again.
\<close>

theorem corrupt_keeps_cursor:
  assumes "dict_get (request_data body) ''custom_params'' = Inr cp" and "\<not> truthy cp"
    and "choose_index body w = (Inr (i, td), w1)"
    and "write_trigger env td w1 = (Inr (), w2)"
    and "rp = result_file_path i"
    and "absent_for env rp k w2" and "k * CHECK_INTERVAL < MAX_WAIT_TIME"
    and "wk = (tick env rp ^^ k) w2"
    and "files (disk wk) rp = Some t"
    and "denied (disk wk) ReadAcc rp \<or> as_json t = None"
  shows "filter (mutates STATE_FILE) (trace (snd (generate_next env body w)))
       = filter (mutates STATE_FILE) (trace w)
     \<and> (keeps_cursor env \<longrightarrow>
          fst (get_current_index (snd (generate_next env body w))) = Inr i)"
proof -
  let ?w' = "snd (generate_next env body w)"
  let ?logged = "emit (Logged ERROR ''traceback'')
          (emit (Logged ERROR ''Error reading/parsing result file'')
            (emit (Open_read rp) (emit (Exists rp) wk)))"
  have rp: "rp \<noteq> STATE_FILE" using assms(5) by simp
  have run: "?w' = remove_corrupted rp ?logged"
    using corrupt_run [OF assms(3-10)] by simp
  have w1: "w1 = snd (choose_index body w)" using assms(3) by simp
  have tr: "filter (mutates STATE_FILE) (trace ?w') = filter (mutates STATE_FILE) (trace w)"
    using write_trigger_sel(3) [OF assms(4)] choose_index_sel(3) [of STATE_FILE body w] rp
    by (simp add: run remove_corrupted_sel(2) [OF rp] mutates_ticks assms(8) w1)
  have cur: "fst (get_current_index ?w') = Inr i" if k: "keeps_cursor env"
  proof -
    have "cursor_view (disk ?w') = cursor_view (disk wk)"
      by (simp add: run remove_corrupted_sel(1) [OF rp])
    also have "\<dots> = cursor_view (disk w2)" using k by (simp add: assms(8) cursor_view_ticks)
    also have "\<dots> = cursor_view (disk w1)" using write_trigger_sel(1) [OF assms(4) k] .
    also have "\<dots> = cursor_view (disk w)" by (simp add: w1 choose_index_sel)
    finally have "fst (get_current_index ?w') = fst (get_current_index w)"
      by (rule get_current_index_view)
    then show ?thesis
      using choose_index_sequential_index [OF assms(1,2,3)] by simp
  qed
  show ?thesis using tr cur by simp
qed

theorem corrupt_keeps_cursor_witness:
  "dict_get (request_data None) ''custom_params'' = Inr JNull \<and> \<not> truthy JNull
   \<and> choose_index None (at_start (cursor_only 0)) = (Inr (0, first_job), cursor_read)
   \<and> write_trigger (writes_from 100 (RESULT_INDEX 0) garbage) first_job cursor_read
       = (Inr (), waiting (writes_from 100 (RESULT_INDEX 0) garbage))
   \<and> RESULT_INDEX 0 = result_file_path 0
   \<and> absent_for (writes_from 100 (RESULT_INDEX 0) garbage) (RESULT_INDEX 0) 1
        (waiting (writes_from 100 (RESULT_INDEX 0) garbage))
   \<and> 1 * CHECK_INTERVAL < MAX_WAIT_TIME
   \<and> files (disk (tick (writes_from 100 (RESULT_INDEX 0) garbage) (RESULT_INDEX 0)
        (waiting (writes_from 100 (RESULT_INDEX 0) garbage)))) (RESULT_INDEX 0) = Some garbage
   \<and> as_json garbage = None
   \<and> keeps_cursor (writes_from 100 (RESULT_INDEX 0) garbage)
   \<and> filter (mutates STATE_FILE) (trace (snd (generate_next
        (writes_from 100 (RESULT_INDEX 0) garbage) None (at_start (cursor_only 0)))))
       = filter (mutates STATE_FILE) (trace (at_start (cursor_only 0)))
   \<and> fst (get_current_index (snd (generate_next (writes_from 100 (RESULT_INDEX 0) garbage) None
        (at_start (cursor_only 0))))) = Inr 0"
proof -
  let ?env = "writes_from 100 (RESULT_INDEX 0) garbage"
  let ?wk = "tick ?env (RESULT_INDEX 0) (waiting ?env)"
  have s: "dict_get (request_data None) ''custom_params'' = Inr JNull"
    by (simp add: dict_get_def request_data_def)
  have n: "\<not> truthy JNull" by simp
  have rp: "RESULT_INDEX 0 = result_file_path 0" by (simp add: result_file_path_def)
  have k: "1 * CHECK_INTERVAL < MAX_WAIT_TIME"
    by (simp add: CHECK_INTERVAL_def MAX_WAIT_TIME_def)
  have wk: "?wk = (tick ?env (RESULT_INDEX 0) ^^ 1) (waiting ?env)" by simp
  have f: "files (disk ?wk) (RESULT_INDEX 0) = Some garbage"
    by (simp add: example_waiting writes_from_def)
  have g: "denied (disk ?wk) ReadAcc (RESULT_INDEX 0) \<or> as_json garbage = None"
    by (simp add: garbage_def)
  have kc: "keeps_cursor ?env" by (simp add: keeps_cursor_writes_from)
  have ga: "as_json garbage = None" by (simp add: garbage_def)
  note T = corrupt_keeps_cursor [OF s n example_choose example_publish rp
      example_late_writer(1) k wk f g]
  have r1: "filter (mutates STATE_FILE) (trace (snd (generate_next ?env None
        (at_start (cursor_only 0)))))
      = filter (mutates STATE_FILE) (trace (at_start (cursor_only 0)))"
    using T by simp
  have r2: "fst (get_current_index (snd (generate_next ?env None (at_start (cursor_only 0)))))
      = Inr 0"
    using T kc by simp
  show ?thesis
    using s n example_choose example_publish [of ?env] rp example_late_writer(1) [of garbage]
      k f ga kc r1 r2
    by blast
qed

section \<open>A result file that is read and parsed\<close>

lemma trace_ticks:
  "trace ((tick env p ^^ k) w)
     = trace w @ concat (replicate k [Exists p, Sleep CHECK_INTERVAL])"
proof (induction k)
  case 0
  then show ?case by simp
next
  case (Suc k)
  have "concat (replicate (Suc k) [Exists p, Sleep CHECK_INTERVAL])
      = concat (replicate k [Exists p, Sleep CHECK_INTERVAL] @ [[Exists p, Sleep CHECK_INTERVAL]])"
    by (simp only: replicate_append_same replicate.simps)
  then show ?case using Suc by simp
qed

lemma write_trigger_trace:
  assumes "write_trigger env td w = (Inr (), w2)"
  shows "trace w2 = trace w @ [Open_write TRIGGER_TMP, Replace TRIGGER_TMP TRIGGER_FILE, Sleep 100]"
  using assms
  by (auto simp: write_trigger_def publish_def write_text_def os_replace_def
      split: if_splits option.splits sum.splits prod.splits)

lemma consumed_run:
  assumes "choose_index body w = (Inr (i, td), w1)"
    and "write_trigger env td w1 = (Inr (), w2)"
    and "rp = result_file_path i"
    and "absent_for env rp k w2" and "k * CHECK_INTERVAL < MAX_WAIT_TIME"
    and "wk = (tick env rp ^^ k) w2"
    and "files (disk wk) rp = Some t" and "\<not> denied (disk wk) ReadAcc rp"
    and "as_json t = Some payload" and "\<not> denied (disk wk) RemoveAcc rp"
    and "i \<noteq> - 1 \<longrightarrow> \<not> denied (disk wk) WriteAcc STATE_FILE"
    and "py_in ''error'' payload = Inr b"
  shows "generate_next env body w
     = (Respond payload (if b then 500 else 200),
        (if i \<noteq> - 1
         then emit (Open_write STATE_FILE) (set_file STATE_FILE (Some (str_int (i + 1)))
                (emit (Remove rp) (set_file rp None (emit (Open_read rp) (emit (Exists rp) wk)))))
         else emit (Remove rp) (set_file rp None (emit (Open_read rp) (emit (Exists rp) wk)))))"
proof -
  have found: "files (disk ((tick env (result_file_path i) ^^ k) w2)) (result_file_path i) \<noteq> None"
    using assms(3,6,7) by simp
  have run: "generate_next env body w = process_result i rp (emit (Exists rp) wk)"
    using found_run [OF assms(1,2) _ _ found] assms(3,4,5,6) by simp
  show ?thesis
    using process_result_ok [of "emit (Exists rp) wk" rp t payload i b] assms(7-12)
    by (simp add: run)
qed

lemma process_result_refused:
  assumes "files (disk w) p = Some t" and "\<not> denied (disk w) ReadAcc p"
    and "as_json t = Some payload" and "denied (disk w) RemoveAcc p"
  shows "process_result i p w
     = (Respond (JObj [(''error'', JStr ''Error processing result: OSError'')]) 500,
        emit (Logged WARNING ''Failed to remove corrupted result file'')
          (emit (Remove p) (emit (Exists p)
            (emit (Logged ERROR ''traceback'')
              (emit (Logged ERROR ''Error reading/parsing result file'')
                (emit (Remove p) (emit (Open_read p) w)))))))"
  using assms
  by (simp add: process_result_def try_result_def read_text_def os_remove_def
      remove_corrupted_def path_exists_def)

lemma example_payloads:
  "as_json (json_dump j) = Some j"
  "py_in ''error'' worker_error = Inr True"
  "py_in ''error'' worker_video = Inr False"
  by (simp_all add: json_dump_def worker_error_def worker_video_def)

text \<open>
  Claim C5, as amended. Take a request that chose an index and published its trigger, and
  a poll of its loop that finds the result file for the first time, the file being
  readable and its text parsing to a payload for which \<^verbatim>\<open>"error" in result\<close> is
  true. Provided the removal of the result file is not refused, and neither is the write
  of the cursor file when the index is not -1, \<open>generate_next\<close> answers that payload
  unchanged with status 500; the result file is removed; when the index is not -1 (which
  only a sequential request can have) the cursor file is written with the index plus one,
  and when it is -1 the cursor file stays as it was at that poll. After the poll the
  handler reads the result, removes it and writes the cursor, in that order, and does
  nothing else.
\<close>

theorem worker_error_passes_through:
  assumes "choose_index body w = (Inr (i, td), w1)"
    and "write_trigger env td w1 = (Inr (), w2)"
    and "rp = result_file_path i"
    and "absent_for env rp k w2" and "k * CHECK_INTERVAL < MAX_WAIT_TIME"
    and "wk = (tick env rp ^^ k) w2"
    and "files (disk wk) rp = Some t" and "\<not> denied (disk wk) ReadAcc rp"
    and "as_json t = Some payload" and "\<not> denied (disk wk) RemoveAcc rp"
    and "i \<noteq> - 1 \<longrightarrow> \<not> denied (disk wk) WriteAcc STATE_FILE"
    and "py_in ''error'' payload = Inr True"
  shows "fst (generate_next env body w) = Respond payload 500
     \<and> files (disk (snd (generate_next env body w)))
       = (if i = - 1 then (files (disk wk))(rp := None)
          else (files (disk wk))(rp := None, STATE_FILE := Some (str_int (i + 1))))
     \<and> trace (snd (generate_next env body w))
       = trace wk @ [Exists rp, Open_read rp, Remove rp]
         @ (if i = - 1 then [] else [Open_write STATE_FILE])"
  by (simp add: consumed_run [OF assms])

theorem worker_error_passes_through_witness:
  "choose_index None (at_start (cursor_only 0)) = (Inr (0, first_job), cursor_read)
   \<and> write_trigger (writes_from 100 (RESULT_INDEX 0) (json_dump worker_error)) first_job cursor_read
       = (Inr (), waiting (writes_from 100 (RESULT_INDEX 0) (json_dump worker_error)))
   \<and> RESULT_INDEX 0 = result_file_path 0
   \<and> absent_for (writes_from 100 (RESULT_INDEX 0) (json_dump worker_error)) (RESULT_INDEX 0) 1
        (waiting (writes_from 100 (RESULT_INDEX 0) (json_dump worker_error)))
   \<and> 1 * CHECK_INTERVAL < MAX_WAIT_TIME
   \<and> files (disk (tick (writes_from 100 (RESULT_INDEX 0) (json_dump worker_error)) (RESULT_INDEX 0)
        (waiting (writes_from 100 (RESULT_INDEX 0) (json_dump worker_error))))) (RESULT_INDEX 0)
       = Some (json_dump worker_error)
   \<and> as_json (json_dump worker_error) = Some worker_error
   \<and> py_in ''error'' worker_error = Inr True
   \<and> fst (generate_next (writes_from 100 (RESULT_INDEX 0) (json_dump worker_error)) None
        (at_start (cursor_only 0))) = Respond worker_error 500
   \<and> files (disk (snd (generate_next (writes_from 100 (RESULT_INDEX 0) (json_dump worker_error))
        None (at_start (cursor_only 0))))) (RESULT_INDEX 0) = None
   \<and> files (disk (snd (generate_next (writes_from 100 (RESULT_INDEX 0) (json_dump worker_error))
        None (at_start (cursor_only 0))))) STATE_FILE = Some (str_int 1)"
proof -
  let ?env = "writes_from 100 (RESULT_INDEX 0) (json_dump worker_error)"
  let ?wk = "tick ?env (RESULT_INDEX 0) (waiting ?env)"
  have rp: "RESULT_INDEX 0 = result_file_path 0" by (simp add: result_file_path_def)
  have k: "1 * CHECK_INTERVAL < MAX_WAIT_TIME"
    by (simp add: CHECK_INTERVAL_def MAX_WAIT_TIME_def)
  have wk: "?wk = (tick ?env (RESULT_INDEX 0) ^^ 1) (waiting ?env)" by simp
  have f: "files (disk ?wk) (RESULT_INDEX 0) = Some (json_dump worker_error)"
    by (simp add: example_waiting writes_from_def)
  have d: "\<not> denied (disk ?wk) ReadAcc (RESULT_INDEX 0)"
    "\<not> denied (disk ?wk) RemoveAcc (RESULT_INDEX 0)"
    "(0::int) \<noteq> - 1 \<longrightarrow> \<not> denied (disk ?wk) WriteAcc STATE_FILE"
    by (simp_all add: example_waiting writes_from_def published_def)
  note T = worker_error_passes_through [OF example_choose example_publish rp
      example_late_writer(1) k wk f d(1) example_payloads(1) d(2) d(3) example_payloads(2)]
  have r1: "fst (generate_next ?env None (at_start (cursor_only 0))) = Respond worker_error 500"
    using T by simp
  have r2: "files (disk (snd (generate_next ?env None (at_start (cursor_only 0)))))
      (RESULT_INDEX 0) = None"
    using T by simp
  have r3: "files (disk (snd (generate_next ?env None (at_start (cursor_only 0)))))
      STATE_FILE = Some (str_int 1)"
    using T by simp
  show ?thesis
    using example_choose example_publish [of ?env] rp
      example_late_writer(1) [of "json_dump worker_error"] k f
      example_payloads(1) [of worker_error] example_payloads(2) r1 r2 r3
    by blast
qed

text \<open>
  The claim as written fails when the removal of the result file is refused: the file
  holds \<^verbatim>\<open>{"error": "oom"}\<close>, \<^verbatim>\<open>os.remove\<close> raises inside the \<^verbatim>\<open>try\<close>, the
  request is answered \<^verbatim>\<open>{"error": "Error processing result: ..."}\<close> in place of the
  payload, and the cursor stays at 0.
\<close>

theorem removal_refused_hides_worker_error:
  "as_json (json_dump worker_error) = Some worker_error
   \<and> py_in ''error'' worker_error = Inr True
   \<and> fst (generate_next (writes_from 100 (RESULT_INDEX 0) (json_dump worker_error)) None
        (at_start no_removal))
       = Respond (JObj [(''error'', JStr ''Error processing result: OSError'')]) 500
   \<and> files (disk (snd (generate_next (writes_from 100 (RESULT_INDEX 0) (json_dump worker_error))
        None (at_start no_removal)))) (RESULT_INDEX 0) = Some (json_dump worker_error)
   \<and> files (disk (snd (generate_next (writes_from 100 (RESULT_INDEX 0) (json_dump worker_error))
        None (at_start no_removal)))) STATE_FILE = Some (str_int 0)"
proof -
  let ?env = "writes_from 100 (RESULT_INDEX 0) (json_dump worker_error)"
  let ?w1 = "emit (Open_read STATE_FILE) (at_start no_removal)"
  let ?w2 = "sleep ?env 100 (snd (publish first_job ?w1))"
  let ?wk = "(tick ?env (RESULT_INDEX 0) ^^ 1) ?w2"
  have rp: "result_file_path 0 = RESULT_INDEX 0" by (simp add: result_file_path_def)
  have ch: "choose_index None (at_start no_removal) = (Inr (0, first_job), ?w1)"
    by (simp add: choose_index_def dict_get_def request_data_def get_current_index_def
        read_text_def at_start_def cursor_only_def no_removal_def str_int_def
        get_total_samples_def first_job_def)
  have pu: "write_trigger ?env first_job ?w1 = (Inr (), ?w2)"
    by (simp add: write_trigger_def publish_def write_text_def os_replace_def
        at_start_def cursor_only_def no_removal_def set_file_def)
  have pf: "files (disk (snd (publish first_job ?w1))) = files published"
    by (auto simp: publish_def write_text_def os_replace_def at_start_def
        cursor_only_def no_removal_def set_file_def published_def fun_eq_iff)
  have pd: "denied (disk (snd (publish first_job ?w1))) = denied no_removal"
    by (simp add: publish_def write_text_def os_replace_def at_start_def
        cursor_only_def no_removal_def set_file_def)
  have pn: "now (snd (publish first_job ?w1)) = 0"
    by (simp add: publish_sel at_start_def)
  have ab: "absent_for ?env (RESULT_INDEX 0) 1 ?w2"
    by (simp add: absent_for_def lessThan_Suc pf pn writes_from_def published_def)
  have k: "1 * CHECK_INTERVAL < MAX_WAIT_TIME"
    by (simp add: CHECK_INTERVAL_def MAX_WAIT_TIME_def)
  have fk: "files (disk ?wk) = (files published)(RESULT_INDEX 0 := Some (json_dump worker_error))"
    by (simp add: pf pn writes_from_def)
  have dk: "denied (disk ?wk) = denied no_removal"
    by (simp add: pd pn writes_from_def)
  have found: "files (disk ?wk) (RESULT_INDEX 0) \<noteq> None"
    by (simp only: fk) simp
  have run: "generate_next ?env None (at_start no_removal)
      = process_result 0 (RESULT_INDEX 0) (emit (Exists (RESULT_INDEX 0)) ?wk)"
    using found_run [OF ch pu, unfolded rp, OF ab k found] .
  have pr: "process_result 0 (RESULT_INDEX 0) (emit (Exists (RESULT_INDEX 0)) ?wk)
     = (Respond (JObj [(''error'', JStr ''Error processing result: OSError'')]) 500,
        emit (Logged WARNING ''Failed to remove corrupted result file'')
          (emit (Remove (RESULT_INDEX 0)) (emit (Exists (RESULT_INDEX 0))
            (emit (Logged ERROR ''traceback'')
              (emit (Logged ERROR ''Error reading/parsing result file'')
                (emit (Remove (RESULT_INDEX 0)) (emit (Open_read (RESULT_INDEX 0))
                  (emit (Exists (RESULT_INDEX 0)) ?wk))))))))"
  proof (rule process_result_refused)
    show "files (disk (emit (Exists (RESULT_INDEX 0)) ?wk)) (RESULT_INDEX 0)
        = Some (json_dump worker_error)"
      by (simp only: emit_sel fk) simp
    show "\<not> denied (disk (emit (Exists (RESULT_INDEX 0)) ?wk)) ReadAcc (RESULT_INDEX 0)"
      by (simp only: emit_sel dk) (simp add: no_removal_def)
    show "as_json (json_dump worker_error) = Some worker_error"
      by (rule example_payloads(1))
    show "denied (disk (emit (Exists (RESULT_INDEX 0)) ?wk)) RemoveAcc (RESULT_INDEX 0)"
      by (simp only: emit_sel dk) (simp add: no_removal_def)
  qed
  have r1: "fst (generate_next ?env None (at_start no_removal))
       = Respond (JObj [(''error'', JStr ''Error processing result: OSError'')]) 500"
    by (simp only: run pr fst_conv)
  have r2: "files (disk (snd (generate_next ?env None (at_start no_removal)))) (RESULT_INDEX 0)
      = Some (json_dump worker_error)"
    by (simp only: run pr snd_conv emit_sel fk) simp
  have r3: "files (disk (snd (generate_next ?env None (at_start no_removal)))) STATE_FILE
      = Some (str_int 0)"
    by (simp only: run pr snd_conv emit_sel fk) (simp add: published_def)
  show ?thesis using example_payloads(1) [of worker_error] example_payloads(2) r1 r2 r3 by blast
qed

section \<open>A successful round trip\<close>

text \<open>
  Claim C1, as amended. Take a sequential request that reads the cursor \<open>i\<close>, below the
  bound and other than -1, and publishes its trigger, and a poll of its loop that finds
  \<^verbatim>\<open>result_i.json\<close> for the first time, the file being readable and its text
  parsing to a payload for which \<^verbatim>\<open>"error" in result\<close> is false. Provided neither the
  removal of the result file nor the write of the cursor file is refused,
  \<open>generate_next\<close> answers that payload with status 200, the result file is removed and
  the cursor file is written with \<open>i + 1\<close>. Every other file, the trigger among them, is
  left as it was at that poll: from the cursor read to the answer the handler reads the
  cursor, publishes the trigger, sleeps, polls, reads the result, removes it and writes
  the cursor, in that order, and removes nothing else.
\<close>

theorem sequential_round_trip:
  assumes "dict_get (request_data body) ''custom_params'' = Inr cp" and "\<not> truthy cp"
    and "fst (get_current_index w) = Inr i" and "i < get_total_samples" and "i \<noteq> - 1"
    and "write_trigger env (JObj [(''index'', JInt i)]) (emit (Open_read STATE_FILE) w)
       = (Inr (), w2)"
    and "absent_for env (RESULT_INDEX i) k w2" and "k * CHECK_INTERVAL < MAX_WAIT_TIME"
    and "wk = (tick env (RESULT_INDEX i) ^^ k) w2"
    and "files (disk wk) (RESULT_INDEX i) = Some t"
    and "\<not> denied (disk wk) ReadAcc (RESULT_INDEX i)"
    and "as_json t = Some payload" and "py_in ''error'' payload = Inr False"
    and "\<not> denied (disk wk) RemoveAcc (RESULT_INDEX i)"
    and "\<not> denied (disk wk) WriteAcc STATE_FILE"
  shows "fst (generate_next env body w) = Respond payload 200
     \<and> files (disk (snd (generate_next env body w)))
       = (files (disk wk))(RESULT_INDEX i := None, STATE_FILE := Some (str_int (i + 1)))
     \<and> trace (snd (generate_next env body w))
       = trace w @ [Open_read STATE_FILE, Open_write TRIGGER_TMP,
           Replace TRIGGER_TMP TRIGGER_FILE, Sleep 100]
         @ concat (replicate k [Exists (RESULT_INDEX i), Sleep CHECK_INTERVAL])
         @ [Exists (RESULT_INDEX i), Open_read (RESULT_INDEX i), Remove (RESULT_INDEX i),
            Open_write STATE_FILE]"
proof -
  have rp: "RESULT_INDEX i = result_file_path i"
    using assms(5) by (simp add: result_file_path_def)
  have wr: "i \<noteq> - 1 \<longrightarrow> \<not> denied (disk wk) WriteAcc STATE_FILE" using assms(15) by simp
  note run = consumed_run [OF choose_index_sequential [OF assms(1-4)] assms(6) rp assms(7-12)
      assms(14) wr assms(13)]
  have tr: "trace wk = trace w @ [Open_read STATE_FILE, Open_write TRIGGER_TMP,
           Replace TRIGGER_TMP TRIGGER_FILE, Sleep 100]
         @ concat (replicate k [Exists (RESULT_INDEX i), Sleep CHECK_INTERVAL])"
    using write_trigger_trace [OF assms(6)] by (simp add: assms(9) trace_ticks)
  show ?thesis using assms(5) by (simp add: run tr)
qed

theorem sequential_round_trip_witness:
  "dict_get (request_data None) ''custom_params'' = Inr JNull \<and> \<not> truthy JNull
   \<and> fst (get_current_index (at_start (cursor_only 0))) = Inr 0
   \<and> (0::int) < get_total_samples
   \<and> write_trigger (writes_from 100 (RESULT_INDEX 0) (json_dump worker_video))
        (JObj [(''index'', JInt 0)]) (emit (Open_read STATE_FILE) (at_start (cursor_only 0)))
       = (Inr (), waiting (writes_from 100 (RESULT_INDEX 0) (json_dump worker_video)))
   \<and> absent_for (writes_from 100 (RESULT_INDEX 0) (json_dump worker_video)) (RESULT_INDEX 0) 1
        (waiting (writes_from 100 (RESULT_INDEX 0) (json_dump worker_video)))
   \<and> 1 * CHECK_INTERVAL < MAX_WAIT_TIME
   \<and> files (disk (tick (writes_from 100 (RESULT_INDEX 0) (json_dump worker_video)) (RESULT_INDEX 0)
        (waiting (writes_from 100 (RESULT_INDEX 0) (json_dump worker_video))))) (RESULT_INDEX 0)
       = Some (json_dump worker_video)
   \<and> as_json (json_dump worker_video) = Some worker_video
   \<and> py_in ''error'' worker_video = Inr False
   \<and> fst (generate_next (writes_from 100 (RESULT_INDEX 0) (json_dump worker_video)) None
        (at_start (cursor_only 0))) = Respond worker_video 200
   \<and> files (disk (snd (generate_next (writes_from 100 (RESULT_INDEX 0) (json_dump worker_video))
        None (at_start (cursor_only 0))))) (RESULT_INDEX 0) = None
   \<and> files (disk (snd (generate_next (writes_from 100 (RESULT_INDEX 0) (json_dump worker_video))
        None (at_start (cursor_only 0))))) STATE_FILE = Some (str_int 1)
   \<and> trace (snd (generate_next (writes_from 100 (RESULT_INDEX 0) (json_dump worker_video))
        None (at_start (cursor_only 0))))
       = [Open_read STATE_FILE, Open_write TRIGGER_TMP, Replace TRIGGER_TMP TRIGGER_FILE,
          Sleep 100, Exists (RESULT_INDEX 0), Sleep 1, Exists (RESULT_INDEX 0),
          Open_read (RESULT_INDEX 0), Remove (RESULT_INDEX 0), Open_write STATE_FILE]"
proof -
  let ?env = "writes_from 100 (RESULT_INDEX 0) (json_dump worker_video)"
  let ?wk = "tick ?env (RESULT_INDEX 0) (waiting ?env)"
  have s: "dict_get (request_data None) ''custom_params'' = Inr JNull"
    by (simp add: dict_get_def request_data_def)
  have n: "\<not> truthy JNull" by simp
  have c: "fst (get_current_index (at_start (cursor_only 0))) = Inr 0"
    by (simp add: example_choose get_current_index_def read_text_def at_start_def
        cursor_only_def str_int_def)
  have b: "(0::int) < get_total_samples" by (simp add: get_total_samples_def)
  have i: "(0::int) \<noteq> - 1" by simp
  have p: "write_trigger ?env (JObj [(''index'', JInt 0)])
      (emit (Open_read STATE_FILE) (at_start (cursor_only 0))) = (Inr (), waiting ?env)"
    using example_publish [of ?env] by (simp add: first_job_def cursor_read_def)
  have k: "1 * CHECK_INTERVAL < MAX_WAIT_TIME"
    by (simp add: CHECK_INTERVAL_def MAX_WAIT_TIME_def)
  have wk: "?wk = (tick ?env (RESULT_INDEX 0) ^^ 1) (waiting ?env)" by simp
  have f: "files (disk ?wk) (RESULT_INDEX 0) = Some (json_dump worker_video)"
    by (simp add: example_waiting writes_from_def)
  have d: "\<not> denied (disk ?wk) ReadAcc (RESULT_INDEX 0)"
    "\<not> denied (disk ?wk) RemoveAcc (RESULT_INDEX 0)"
    "\<not> denied (disk ?wk) WriteAcc STATE_FILE"
    by (simp_all add: example_waiting writes_from_def published_def)
  note T = sequential_round_trip [OF s n c b i p example_late_writer(1) k wk f d(1)
      example_payloads(1) example_payloads(3) d(2) d(3)]
  have r1: "fst (generate_next ?env None (at_start (cursor_only 0))) = Respond worker_video 200"
    using T by simp
  have r2: "files (disk (snd (generate_next ?env None (at_start (cursor_only 0)))))
      (RESULT_INDEX 0) = None"
    using T by simp
  have r3: "files (disk (snd (generate_next ?env None (at_start (cursor_only 0)))))
      STATE_FILE = Some (str_int 1)"
    using T by simp
  have r4: "trace (snd (generate_next ?env None (at_start (cursor_only 0))))
       = [Open_read STATE_FILE, Open_write TRIGGER_TMP, Replace TRIGGER_TMP TRIGGER_FILE,
          Sleep 100, Exists (RESULT_INDEX 0), Sleep 1, Exists (RESULT_INDEX 0),
          Open_read (RESULT_INDEX 0), Remove (RESULT_INDEX 0), Open_write STATE_FILE]"
    using T by (simp add: at_start_def CHECK_INTERVAL_def)
  show ?thesis
    using s n c b p example_late_writer(1) [of "json_dump worker_video"] k f
      example_payloads(1) [of worker_video] example_payloads(3) r1 r2 r3 r4
    by blast
qed

text \<open>
  The claim as written fails on the trigger: the handler removes it only when it gives
  up waiting. With a worker that writes \<^verbatim>\<open>result_0.json\<close> and leaves the trigger
  alone, the request is answered 200, the cursor is 1, the result file is gone and the
  trigger file still holds the job.
\<close>

theorem trigger_survives_round_trip:
  "fst (generate_next (writes_from 100 (RESULT_INDEX 0) (json_dump worker_video)) None
        (at_start (cursor_only 0))) = Respond worker_video 200
   \<and> files (disk (snd (generate_next (writes_from 100 (RESULT_INDEX 0) (json_dump worker_video))
        None (at_start (cursor_only 0))))) STATE_FILE = Some (str_int 1)
   \<and> files (disk (snd (generate_next (writes_from 100 (RESULT_INDEX 0) (json_dump worker_video))
        None (at_start (cursor_only 0))))) (RESULT_INDEX 0) = None
   \<and> files (disk (snd (generate_next (writes_from 100 (RESULT_INDEX 0) (json_dump worker_video))
        None (at_start (cursor_only 0))))) TRIGGER_FILE = Some (json_dump first_job)"
proof -
  let ?env = "writes_from 100 (RESULT_INDEX 0) (json_dump worker_video)"
  let ?wk = "tick ?env (RESULT_INDEX 0) (waiting ?env)"
  have rp: "RESULT_INDEX 0 = result_file_path 0" by (simp add: result_file_path_def)
  have k: "1 * CHECK_INTERVAL < MAX_WAIT_TIME"
    by (simp add: CHECK_INTERVAL_def MAX_WAIT_TIME_def)
  have wk: "?wk = (tick ?env (RESULT_INDEX 0) ^^ 1) (waiting ?env)" by simp
  have f: "files (disk ?wk) (RESULT_INDEX 0) = Some (json_dump worker_video)"
    by (simp add: example_waiting writes_from_def)
  have d: "\<not> denied (disk ?wk) ReadAcc (RESULT_INDEX 0)"
    "\<not> denied (disk ?wk) RemoveAcc (RESULT_INDEX 0)"
    "(0::int) \<noteq> - 1 \<longrightarrow> \<not> denied (disk ?wk) WriteAcc STATE_FILE"
    by (simp_all add: example_waiting writes_from_def published_def)
  note R = consumed_run [OF example_choose example_publish rp example_late_writer(1) k wk f
      d(1) example_payloads(1) d(2) d(3) example_payloads(3)]
  have r1: "fst (generate_next ?env None (at_start (cursor_only 0))) = Respond worker_video 200"
    by (simp add: R)
  have r2: "files (disk (snd (generate_next ?env None (at_start (cursor_only 0)))))
      STATE_FILE = Some (str_int 1)"
    by (simp add: R)
  have r3: "files (disk (snd (generate_next ?env None (at_start (cursor_only 0)))))
      (RESULT_INDEX 0) = None"
    by (simp add: R)
  have r4: "files (disk (snd (generate_next ?env None (at_start (cursor_only 0)))))
      TRIGGER_FILE = Some (json_dump first_job)"
    by (simp add: R example_waiting writes_from_def published_def)
  show ?thesis using r1 r2 r3 r4 by blast
qed

end
